theory Spec2Isabelle
  imports Complex_Main
begin

section \<open>JavaScript primitives used by the booking controller\<close>

text \<open>
  The controller handles wall-clock times as strings (\<open>"09:00"\<close>, \<open>"14:15:00"\<close>) and
  converts them with \<open>split(':').map(Number)\<close>. A JavaScript number that is \<open>NaN\<close> (or a
  destructured element that is \<open>undefined\<close>, which \<open>isNaN\<close> and arithmetic treat alike) is
  \<open>None\<close>; every other number the slot code meets is an integer.

  \<open>Number\<close> is modelled on the strings a time field is made of: the empty string is \<open>0\<close>, a
  string of decimal digits is its value, anything else is \<open>NaN\<close>. (JavaScript also accepts
  signs, fractions, exponents, hexadecimal and surrounding white space; no time string of the
  form \<open>HH:MM\<close> or \<open>HH:MM:SS\<close> uses them.)
\<close>

type_synonym js_number = "int option"

definition is_digit :: "char \<Rightarrow> bool" where
  "is_digit c = (48 \<le> (of_char c :: nat) \<and> (of_char c :: nat) \<le> 57)"

definition digit_val :: "char \<Rightarrow> nat" where
  "digit_val c = of_char c - 48"

definition Number :: "string \<Rightarrow> js_number" where
  "Number s =
     (if s = [] then Some 0
      else if list_all is_digit s then Some (int (foldl (\<lambda>a c. 10 * a + digit_val c) 0 s))
      else None)"

text \<open>\<open>str.split(c)\<close> for a one-character separator: \<open>"".split(':')\<close> is \<open>[""]\<close>.\<close>

fun split_on :: "char \<Rightarrow> string \<Rightarrow> string list" where
  "split_on c [] = [[]]"
| "split_on c (x # xs) =
     (if x = c then [] # split_on c xs
      else (case split_on c xs of
              [] \<Rightarrow> [[x]]
            | w # ws \<Rightarrow> (x # w) # ws))"

text \<open>Array destructuring \<open>[a, b] = arr\<close>: a missing element is \<open>undefined\<close>.\<close>

definition element :: "js_number list \<Rightarrow> nat \<Rightarrow> js_number" where
  "element arr i = (if i < length arr then arr ! i else None)"

text \<open>\<open>n.toString()\<close> for an integer and \<open>s.padStart(2, '0')\<close>.\<close>

definition digit_char :: "nat \<Rightarrow> char" where
  "digit_char d = char_of (48 + d)"

function string_of_nat :: "nat \<Rightarrow> string" where
  "string_of_nat n =
     (if n < 10 then [digit_char n] else string_of_nat (n div 10) @ [digit_char (n mod 10)])"
  by pat_completeness auto
termination
  by (relation "measure (\<lambda>n. n)") auto

declare string_of_nat.simps [simp del]

definition toString :: "int \<Rightarrow> string" where
  "toString i = (if i < 0 then CHR ''-'' # string_of_nat (nat (- i)) else string_of_nat (nat i))"

definition padStart2 :: "string \<Rightarrow> string" where
  "padStart2 s = replicate (2 - length s) CHR ''0'' @ s"

text \<open>
  The remainder operator \<open>%\<close> takes the sign of the dividend; \<open>Math.floor(a / b)\<close> for
  a positive \<open>b\<close> is HOL's \<open>div\<close>; \<open>Math.ceil(a / b)\<close> is its mirror image.
\<close>

definition js_rem :: "int \<Rightarrow> int \<Rightarrow> int" where
  "js_rem a b = (if a < 0 then - ((- a) mod b) else a mod b)"

definition ceil_div :: "int \<Rightarrow> int \<Rightarrow> int" where
  "ceil_div a b = - ((- a) div b)"

section \<open>Calendar/TimeMath\<close>

text \<open>
  \<open>_minutesToTimeString\<close> and \<open>_timeStringToMinutes\<close> of the booking controller (the leading
  underscore of the source names is dropped).
\<close>

definition minutesToTimeString :: "int \<Rightarrow> string" where
  "minutesToTimeString minutes =
     (let hours = minutes div 60;
          mins = js_rem minutes 60
      in padStart2 (toString hours) @ '':'' @ padStart2 (toString mins))"

definition timeStringToMinutes :: "string \<Rightarrow> js_number" where
  "timeStringToMinutes timeStr =
     (let parts = map Number (split_on CHR '':'' timeStr)
      in case (element parts 0, element parts 1) of
           (Some hours, Some minutes) \<Rightarrow> Some (hours * 60 + minutes)
         | _ \<Rightarrow> None)"

section \<open>AvailabilityCalculator\<close>

text \<open>
  A slot, and an existing booking as \<open>getAvailableSlots\<close> selects it
  (\<open>select('start_time, end_time')\<close>), is a pair of time strings.
\<close>

record slot =
  slot_start_time :: string
  slot_end_time :: string

text \<open>
  The clock read by \<open>new Date()\<close>: the local date as \<open>YYYY-MM-DD\<close> and the local hour and
  minute.
\<close>

record clock =
  today :: string
  localHours :: int
  localMinutes :: int

definition slotInterval :: int where
  "slotInterval = 15"

text \<open>
  The callback of \<open>existingBookings.some\<close>: a comparison with \<open>NaN\<close> is false.
\<close>

definition overlaps_booking :: "int \<Rightarrow> int \<Rightarrow> slot \<Rightarrow> bool" where
  "overlaps_booking currentTime serviceDuration booking =
     (case (timeStringToMinutes (slot_start_time booking),
            timeStringToMinutes (slot_end_time booking)) of
        (Some bookingStart, Some bookingEnd) \<Rightarrow>
          currentTime < bookingEnd \<and> currentTime + serviceDuration > bookingStart
      | _ \<Rightarrow> False)"

definition hasConflict :: "int \<Rightarrow> int \<Rightarrow> slot list \<Rightarrow> bool" where
  "hasConflict currentTime serviceDuration existingBookings =
     list_ex (overlaps_booking currentTime serviceDuration) existingBookings"

text \<open>The \<open>while\<close> loop of \<open>_calculateAvailableSlots\<close>; it returns the slots pushed.\<close>

function slot_walk :: "int \<Rightarrow> int \<Rightarrow> int \<Rightarrow> slot list \<Rightarrow> slot list" where
  "slot_walk currentTime endTime serviceDuration existingBookings =
     (if currentTime + serviceDuration \<le> endTime then
        (if \<not> hasConflict currentTime serviceDuration existingBookings
         then [\<lparr>slot_start_time = minutesToTimeString currentTime,
                 slot_end_time = minutesToTimeString (currentTime + serviceDuration)\<rparr>]
         else [])
        @ slot_walk (currentTime + slotInterval) endTime serviceDuration existingBookings
      else [])"
  by pat_completeness auto
termination
  by (relation "measure (\<lambda>(currentTime, endTime, serviceDuration, existingBookings).
                   nat (endTime - serviceDuration - currentTime + 1))")
     (auto simp: slotInterval_def)

declare slot_walk.simps [simp del]

text \<open>
  The normalisation of the appointment date:
  \<open>appointmentDate.split('T')[0].split(' ')[0]\<close>.
\<close>

definition normalise_date :: "string \<Rightarrow> string" where
  "normalise_date appointmentDate =
     takeWhile (\<lambda>c. c \<noteq> CHR '' '') (takeWhile (\<lambda>c. c \<noteq> CHR ''T'') appointmentDate)"

text \<open>
  \<open>_calculateAvailableSlots(openTime, closeTime, serviceDuration, existingBookings,
  appointmentDate = null)\<close>. An absent or empty \<open>appointmentDate\<close> is falsy and skips the
  same-day adjustment; \<open>booking_for_today\<close> is the test \<open>appointmentDateStr === today\<close> behind
  that guard.
\<close>

definition booking_for_today :: "clock \<Rightarrow> string option \<Rightarrow> bool" where
  "booking_for_today now appointmentDate =
     (case appointmentDate of
        None \<Rightarrow> False
      | Some d \<Rightarrow> d \<noteq> [] \<and> normalise_date d = today now)"

definition calculateAvailableSlots ::
  "clock \<Rightarrow> string \<Rightarrow> string \<Rightarrow> int \<Rightarrow> slot list \<Rightarrow> string option \<Rightarrow> slot list" where
  "calculateAvailableSlots now openTime closeTime serviceDuration existingBookings appointmentDate =
     (let openParts = map Number (split_on CHR '':'' openTime);
          closeParts = map Number (split_on CHR '':'' closeTime)
      in case (element openParts 0, element openParts 1,
               element closeParts 0, element closeParts 1) of
           (Some openHour, Some openMinute, Some closeHour, Some closeMinute) \<Rightarrow>
             (let currentTime = openHour * 60 + openMinute;
                  endTime = closeHour * 60 + closeMinute
              in if booking_for_today now appointmentDate
                 then
                   (let currentMinutes = localHours now * 60 + localMinutes now;
                        minBookingTime = currentMinutes - 5;
                        roundedMinBookingTime = ceil_div minBookingTime slotInterval * slotInterval;
                        currentTime' = max currentTime roundedMinBookingTime
                    in if currentTime' \<ge> endTime then []
                       else slot_walk currentTime' endTime serviceDuration existingBookings)
                 else slot_walk currentTime endTime serviceDuration existingBookings)
         | _ \<Rightarrow> [])"

section \<open>The reservation store\<close>

text \<open>
  The tables the handlers read and write, as lists of rows. Identifiers are numbers. The
  \<open>start_time\<close> and \<open>end_time\<close> columns of a booking hold a time of day, compared by the
  database as times; they are modelled at minute resolution as minutes since midnight. Statuses
  are the strings of the source. Row-level security, payment records and outgoing e-mail are
  not modelled: every query sees all rows. A store failure (a query or write that returns an
  error object) is modelled where a handler carries on after it and still answers success,
  which is in \<open>_updateSalonRating\<close>; elsewhere a failed write ends the request with a 500
  error and every write is taken to succeed, except the write of an end time that is not a
  time.
\<close>

record booking =
  booking_id :: nat
  client_id :: nat
  salon_id :: nat
  service_id :: nat
  staff_id :: "nat option"
  appointment_date :: string
  start_time :: int
  end_time :: int
  status :: string
  salon_notes :: "string option"
  cancellation_reason :: "string option"

record service =
  sv_id :: nat
  sv_salon_id :: nat
  duration :: int

record salon =
  sl_id :: nat
  owner_id :: nat
  rating_average :: rat
  rating_count :: nat

record staff_member =
  st_id :: nat
  st_salon_id :: nat
  st_user_id :: nat

record family_member =
  fm_id :: nat
  parent_id :: nat

record review =
  rv_id :: nat
  rv_client_id :: nat
  rv_salon_id :: nat
  rv_booking_id :: "nat option"
  rating :: int
  is_visible :: bool

record database =
  bookings :: "booking list"
  services :: "service list"
  salons :: "salon list"
  staff :: "staff_member list"
  family_members :: "family_member list"
  reviews :: "review list"

text \<open>\<open>new AppError(message, statusCode, code)\<close>.\<close>

datatype app_error = AppError string nat string

fun statusCode :: "app_error \<Rightarrow> nat" where
  "statusCode (AppError message sc c) = sc"

fun code :: "app_error \<Rightarrow> string" where
  "code (AppError message sc c) = c"

text \<open>\<open>.single()\<close>: exactly one row, otherwise an error and no data.\<close>

fun single :: "'a list \<Rightarrow> 'a option" where
  "single [x] = Some x"
| "single _ = None"

text \<open>The identifier the database gives an inserted row.\<close>

definition fresh_id :: "nat list \<Rightarrow> nat" where
  "fresh_id ids = Suc (fold max ids 0)"

text \<open>
  The end of an appointment is computed with the platform's \<open>Date\<close>:
  \<open>new Date(date + 'T' + start_time)\<close>, plus \<open>duration * 60000\<close> milliseconds, read back
  with \<open>toTimeString()\<close> and cut to \<open>HH:MM\<close>. What that reads depends on the server's time
  zone (the date of the result is dropped, and a daylight-saving change between start and end
  shifts the reading), and a string that does not parse gives \<open>Invalid Date\<close>, read back as
  \<open>'Inval'\<close>. The computation is a parameter of the handlers: given the date, the start and
  the minutes to add, it returns the time of day read back, or \<open>None\<close> for
  \<open>Invalid Date\<close>.
\<close>

type_synonym date_arithmetic = "string \<Rightarrow> int \<Rightarrow> int \<Rightarrow> int option"

section \<open>ConflictDetector and ReservationLifecycle\<close>

subsection \<open>createBooking\<close>

record create_request =
  cr_user :: nat
  cr_salon_id :: "nat option"
  cr_service_id :: "nat option"
  cr_staff_id :: "nat option"
  cr_appointment_date :: "string option"
  cr_start_time :: "int option"
  cr_family_member_id :: "nat option"

text \<open>
  The conflict query of \<open>createBooking\<close>:
  \<open>.eq('salon_id', salon_id).eq('appointment_date', appointment_date)
   .neq('status', 'cancelled').lt('start_time', endTimeStr).gt('end_time', start_time)\<close>.
\<close>

definition create_conflicts :: "database \<Rightarrow> nat \<Rightarrow> string \<Rightarrow> int \<Rightarrow> int \<Rightarrow> booking list" where
  "create_conflicts db salon date startTime endTime =
     filter (\<lambda>b. salon_id b = salon \<and> appointment_date b = date
                 \<and> status b \<noteq> ''cancelled''
                 \<and> start_time b < endTime \<and> end_time b > startTime)
            (bookings db)"

text \<open>The family member named in the request is not one of the user's.\<close>

definition family_member_missing :: "database \<Rightarrow> create_request \<Rightarrow> bool" where
  "family_member_missing db rq =
     (case cr_family_member_id rq of
        None \<Rightarrow> False
      | Some fm \<Rightarrow>
          single (filter (\<lambda>m. fm_id m = fm \<and> parent_id m = cr_user rq) (family_members db))
            = None)"

text \<open>
  With an end time that is not a time (\<open>'Inval'\<close>) the conflict query returns an error and
  no rows, which the handler reads as no conflict; the insert is then refused by the store
  and the request ends with \<open>BOOKING_CREATION_FAILED\<close> (the source appends the store's own
  message to the text of that error).
\<close>

definition createBooking ::
  "date_arithmetic \<Rightarrow> database \<Rightarrow> create_request \<Rightarrow> (app_error + booking) \<times> database" where
  "createBooking endTimeAfter db rq =
     (case (cr_salon_id rq, cr_service_id rq, cr_appointment_date rq, cr_start_time rq) of
        (Some salon, Some svc, Some date, Some startTime) \<Rightarrow>
          if date = [] then
            (Inl (AppError ''Missing required booking information'' 400 ''MISSING_BOOKING_INFO''), db)
          else
          (case single (filter (\<lambda>s. sv_id s = svc) (services db)) of
             None \<Rightarrow> (Inl (AppError ''Service not found'' 404 ''SERVICE_NOT_FOUND''), db)
           | Some service \<Rightarrow>
               if sv_salon_id service \<noteq> salon then
                 (Inl (AppError ''Service does not belong to this salon'' 404 ''SERVICE_NOT_FOUND''), db)
               else
               (case single (filter (\<lambda>s. sl_id s = salon) (salons db)) of
                  None \<Rightarrow> (Inl (AppError ''Salon not found'' 404 ''SALON_NOT_FOUND''), db)
                | Some sal \<Rightarrow>
                    (case endTimeAfter date startTime (duration service) of
                       None \<Rightarrow>
                         if family_member_missing db rq then
                           (Inl (AppError ''Family member not found'' 404
                                   ''FAMILY_MEMBER_NOT_FOUND''), db)
                         else
                           (Inl (AppError ''Failed to create booking'' 500
                                   ''BOOKING_CREATION_FAILED''), db)
                     | Some endTime \<Rightarrow>
                         if create_conflicts db salon date startTime endTime \<noteq> [] then
                           (Inl (AppError ''Time slot not available'' 409 ''TIME_SLOT_CONFLICT''), db)
                         else if family_member_missing db rq then
                           (Inl (AppError ''Family member not found'' 404
                                   ''FAMILY_MEMBER_NOT_FOUND''), db)
                         else
                           (let row = \<lparr>booking_id = fresh_id (map booking_id (bookings db)),
                                       client_id = cr_user rq,
                                       salon_id = salon,
                                       service_id = svc,
                                       staff_id = cr_staff_id rq,
                                       appointment_date = date,
                                       start_time = startTime,
                                       end_time = endTime,
                                       status = ''confirmed'',
                                       salon_notes = None,
                                       cancellation_reason = None\<rparr>
                            in (Inr row, db\<lparr>bookings := bookings db @ [row]\<rparr>)))))
      | _ \<Rightarrow> (Inl (AppError ''Missing required booking information'' 400 ''MISSING_BOOKING_INFO''), db))"

text \<open>A response that carries the reason code \<open>TIME_SLOT_CONFLICT\<close>.\<close>

definition is_slot_conflict :: "app_error + booking \<Rightarrow> bool" where
  "is_slot_conflict response =
     (case response of
        Inl e \<Rightarrow> code e = ''TIME_SLOT_CONFLICT''
      | Inr created \<Rightarrow> False)"

text \<open>
  The half-open overlap test of the specification, on the stored interval of a booking:
  \<open>candidateStart < existingEnd AND existingStart < candidateEnd\<close>.
\<close>

definition overlaps_interval :: "int \<Rightarrow> int \<Rightarrow> booking \<Rightarrow> bool" where
  "overlaps_interval candidateStart candidateEnd existing =
     (candidateStart < end_time existing \<and> start_time existing < candidateEnd)"

subsection \<open>getAvailableSlots: the existing bookings it hands to the calculator\<close>

text \<open>
  The bookings query of \<open>getAvailableSlots\<close>, narrowed to the staff member when the request
  names one, and the rows as the calculator receives them: the database renders a time column
  as \<open>HH:MM:SS\<close>.
\<close>

definition time_text :: "int \<Rightarrow> string" where
  "time_text t = minutesToTimeString t @ '':00''"

definition existingBookings_query :: "database \<Rightarrow> nat \<Rightarrow> string \<Rightarrow> nat option \<Rightarrow> slot list" where
  "existingBookings_query db salon date staffId =
     map (\<lambda>b. \<lparr>slot_start_time = time_text (start_time b), slot_end_time = time_text (end_time b)\<rparr>)
       (filter (\<lambda>b. salon_id b = salon \<and> appointment_date b = date
                    \<and> status b \<noteq> ''cancelled''
                    \<and> (case staffId of None \<Rightarrow> True | Some st \<Rightarrow> staff_id b = Some st))
               (bookings db))"

subsection \<open>rescheduleBooking\<close>

record reschedule_request =
  rs_user :: nat
  rs_bookingId :: nat
  rs_appointment_date :: "string option"
  rs_start_time :: "int option"

text \<open>
  The conflict query of \<open>rescheduleBooking\<close>. Each \<open>.or(...)\<close> adds one more condition to
  the request, and the conditions of a request are conjoined. (With an end time that is not a
  time, the query fails, the handler reads that as no conflict, and the update is refused by
  the store: \<open>RESCHEDULE_FAILED\<close>.)
  \<open>.neq('id', bookingId)
   .or(`start_time.lte.${start_time},end_time.gte.${endTimeStr}`)
   .or(`start_time.lt.${endTimeStr},end_time.gt.${start_time}`)\<close>.
\<close>

definition reschedule_conflicts ::
  "database \<Rightarrow> nat \<Rightarrow> nat \<Rightarrow> string \<Rightarrow> int \<Rightarrow> int \<Rightarrow> booking list" where
  "reschedule_conflicts db bookingId salon date startTime endTime =
     filter (\<lambda>b. salon_id b = salon \<and> appointment_date b = date
                 \<and> status b \<noteq> ''cancelled''
                 \<and> booking_id b \<noteq> bookingId
                 \<and> (start_time b \<le> startTime \<or> end_time b \<ge> endTime)
                 \<and> (start_time b < endTime \<or> end_time b > startTime))
            (bookings db)"

definition rescheduleBooking ::
  "date_arithmetic \<Rightarrow> database \<Rightarrow> reschedule_request \<Rightarrow> (app_error + booking) \<times> database" where
  "rescheduleBooking endTimeAfter db rq =
     (case (rs_appointment_date rq, rs_start_time rq) of
        (Some date, Some startTime) \<Rightarrow>
          if date = [] then
            (Inl (AppError ''Missing required fields: appointment_date, start_time'' 400 ''MISSING_FIELDS''), db)
          else
          (case single (filter (\<lambda>b. booking_id b = rs_bookingId rq) (bookings db)) of
             None \<Rightarrow> (Inl (AppError ''Booking not found'' 404 ''BOOKING_NOT_FOUND''), db)
           | Some booking \<Rightarrow>
               if client_id booking \<noteq> rs_user rq then
                 (Inl (AppError ''Only the client can reschedule this booking'' 403
                         ''INSUFFICIENT_PERMISSIONS''), db)
               else if status booking \<noteq> ''pending'' \<and> status booking \<noteq> ''confirmed'' then
                 (Inl (AppError ''Can only reschedule pending or confirmed bookings'' 400
                         ''INVALID_STATUS''), db)
               else
               (case single (filter (\<lambda>s. sv_id s = service_id booking) (services db)) of
                  None \<Rightarrow> (Inl (AppError ''Failed to reschedule booking'' 500 ''RESCHEDULE_FAILED''), db)
                | Some service \<Rightarrow>
                    (case endTimeAfter date startTime (duration service) of
                       None \<Rightarrow>
                         (Inl (AppError ''Failed to reschedule booking'' 500 ''RESCHEDULE_FAILED''), db)
                     | Some endTime \<Rightarrow>
                         if reschedule_conflicts db (rs_bookingId rq) (salon_id booking) date
                              startTime endTime \<noteq> [] then
                           (Inl (AppError ''Time slot not available'' 409 ''TIME_SLOT_CONFLICT''), db)
                         else
                           (let updated = booking\<lparr>appointment_date := date,
                                                   start_time := startTime,
                                                   end_time := endTime,
                                                   status := ''pending''\<rparr>
                            in (Inr updated,
                                db\<lparr>bookings :=
                                     map (\<lambda>b. if booking_id b = rs_bookingId rq
                                               then b\<lparr>appointment_date := date,
                                                       start_time := startTime,
                                                       end_time := endTime,
                                                       status := ''pending''\<rparr>
                                               else b)
                                         (bookings db)\<rparr>)))))
      | _ \<Rightarrow> (Inl (AppError ''Missing required fields: appointment_date, start_time'' 400
                     ''MISSING_FIELDS''), db))"

subsection \<open>updateBookingStatus\<close>

text \<open>
  The waitlist controller is not part of the sources at hand; the handlers reach it through
  \<open>processWaitlistForCancelledBooking(salon_id, service_id, appointment_date, start_time)\<close>.
  It is a parameter here: given the freed slot it either returns or throws. The handlers
  return, next to the response and the store, the list of calls they made to it.
\<close>

type_synonym freed_slot = "nat \<times> nat \<times> string \<times> int"

datatype thrown = ThrownAppError app_error | ThrownOther

type_synonym dispatcher = "freed_slot \<Rightarrow> thrown option"

record status_request =
  us_user :: nat
  us_bookingId :: nat
  us_status :: string
  us_staff_notes :: "string option"
  us_cancellation_reason :: "string option"

definition validStatuses :: "string list" where
  "validStatuses = [''pending'', ''confirmed'', ''completed'', ''cancelled'', ''no_show'']"

text \<open>A string value is truthy when it is present and not empty.\<close>

fun truthy :: "string option \<Rightarrow> bool" where
  "truthy None = False"
| "truthy (Some s) = (s \<noteq> [])"

definition apply_status_update :: "status_request \<Rightarrow> bool \<Rightarrow> booking \<Rightarrow> booking" where
  "apply_status_update rq mayNote b =
     (let b1 = b\<lparr>status := us_status rq\<rparr>;
          b2 = (if truthy (us_staff_notes rq) \<and> mayNote
                then b1\<lparr>salon_notes := us_staff_notes rq\<rparr> else b1)
      in if us_status rq = ''cancelled'' \<and> truthy (us_cancellation_reason rq)
         then b2\<lparr>cancellation_reason := us_cancellation_reason rq\<rparr> else b2)"

definition updateBookingStatus ::
  "dispatcher \<Rightarrow> database \<Rightarrow> status_request
     \<Rightarrow> (app_error + booking) \<times> database \<times> freed_slot list" where
  "updateBookingStatus processWaitlist db rq =
     (if us_status rq \<notin> set validStatuses then
        (Inl (AppError ''Invalid booking status'' 400 ''INVALID_STATUS''), db, [])
      else
      (case single (filter (\<lambda>b. booking_id b = us_bookingId rq) (bookings db)) of
         None \<Rightarrow> (Inl (AppError ''Booking not found'' 404 ''BOOKING_NOT_FOUND''), db, [])
       | Some booking \<Rightarrow>
           (case single (filter (\<lambda>s. sl_id s = salon_id booking) (salons db)) of
              None \<Rightarrow> (Inl (AppError ''Failed to update booking'' 500 ''BOOKING_UPDATE_FAILED''), db, [])
            | Some sal \<Rightarrow>
                (let isOwner = (owner_id sal = us_user rq);
                     isClient = (client_id booking = us_user rq);
                     isStaff = (\<not> isOwner \<and> \<not> isClient \<and>
                                single (filter (\<lambda>m. st_salon_id m = salon_id booking
                                                     \<and> st_user_id m = us_user rq) (staff db)) \<noteq> None)
                 in if \<not> isOwner \<and> \<not> isClient \<and> \<not> isStaff then
                      (Inl (AppError ''Insufficient permissions'' 403 ''INSUFFICIENT_PERMISSIONS''), db, [])
                    else if isClient \<and> \<not> isOwner \<and> \<not> isStaff \<and> us_status rq \<noteq> ''cancelled'' then
                      (Inl (AppError ''Clients can only cancel bookings'' 403 ''CLIENT_CAN_ONLY_CANCEL''),
                       db, [])
                    else
                      (let updatedBooking = apply_status_update rq (isOwner \<or> isStaff) booking;
                           db' = db\<lparr>bookings :=
                                      map (\<lambda>b. if booking_id b = us_bookingId rq
                                                then apply_status_update rq (isOwner \<or> isStaff) b
                                                else b)
                                          (bookings db)\<rparr>
                       in if us_status rq = ''cancelled'' then
                            (case single (filter (\<lambda>s. sv_id s = service_id booking) (services db)) of
                               None \<Rightarrow>
                                 (Inl (AppError ''Failed to update booking'' 500 ''BOOKING_UPDATE_FAILED''),
                                  db', [])
                             | Some service \<Rightarrow>
                                 (let freed = (salon_id booking, service_id booking,
                                               appointment_date booking, start_time booking)
                                  in case processWaitlist freed of
                                       None \<Rightarrow> (Inr updatedBooking, db', [freed])
                                     | Some (ThrownAppError e) \<Rightarrow> (Inl e, db', [freed])
                                     | Some ThrownOther \<Rightarrow>
                                         (Inl (AppError ''Failed to update booking'' 500
                                                 ''BOOKING_UPDATE_FAILED''), db', [freed])))
                          else (Inr updatedBooking, db', []))))))"

subsection \<open>cancelBookingAsSalonOwner\<close>

record cancel_request =
  cn_user :: nat
  cn_bookingId :: nat
  cn_cancellation_reason :: "string option"

definition cancelBookingAsSalonOwner ::
  "dispatcher \<Rightarrow> database \<Rightarrow> cancel_request
     \<Rightarrow> (app_error + booking) \<times> database \<times> freed_slot list" where
  "cancelBookingAsSalonOwner processWaitlist db rq =
     (case single (filter (\<lambda>b. booking_id b = cn_bookingId rq) (bookings db)) of
        None \<Rightarrow> (Inl (AppError ''Booking not found'' 404 ''BOOKING_NOT_FOUND''), db, [])
      | Some booking \<Rightarrow>
          (case single (filter (\<lambda>s. sl_id s = salon_id booking) (salons db)) of
             None \<Rightarrow> (Inl (AppError ''Failed to cancel booking'' 500 ''BOOKING_CANCEL_FAILED''), db, [])
           | Some sal \<Rightarrow>
               if owner_id sal \<noteq> cn_user rq then
                 (Inl (AppError ''Only salon owners can cancel bookings'' 403
                         ''INSUFFICIENT_PERMISSIONS''), db, [])
               else if status booking = ''cancelled'' then
                 (Inl (AppError ''Booking is already cancelled'' 400 ''BOOKING_ALREADY_CANCELLED''),
                  db, [])
               else
                 (let reason = (if truthy (cn_cancellation_reason rq)
                                then cn_cancellation_reason rq else Some ''Cancelled by salon'');
                      upd = (\<lambda>b. b\<lparr>status := ''cancelled'', cancellation_reason := reason\<rparr>);
                      db' = db\<lparr>bookings :=
                                 map (\<lambda>b. if booking_id b = cn_bookingId rq then upd b else b)
                                     (bookings db)\<rparr>;
                      freed = (salon_id booking, service_id booking,
                               appointment_date booking, start_time booking)
                  in (Inr (upd booking), db', [freed]))))"

subsection \<open>updateService (service controller)\<close>



section \<open>AggregateRatingProjector\<close>

subsection \<open>The arithmetic of the average\<close>

text \<open>
  \<open>sum / reviewCount\<close> is one division of binary64 numbers, rounded to the nearest
  representable number with ties to the even significand. For a positive quotient of two
  integers below \<open>2^53\<close> (which are represented exactly) the result is \<open>m / 2^k\<close>, where
  \<open>k\<close> is the least exponent with \<open>2^52 \<le> s * 2^k / n\<close> and \<open>m\<close> is \<open>s * 2^k / n\<close> rounded to
  an integer. The values are kept as exact rationals.
\<close>

function norm_shift :: "int \<Rightarrow> int \<Rightarrow> nat \<Rightarrow> nat" where
  "norm_shift s n k =
     (if s \<le> 0 \<or> n * 2 ^ 52 \<le> s * 2 ^ k then k else norm_shift s n (Suc k))"
  by pat_completeness auto
termination
proof (relation "measure (\<lambda>(s, n, k). nat (n * 2 ^ 52 - s * 2 ^ k))")
  show "wf (measure (\<lambda>(s, n, k). nat (n * 2 ^ 52 - s * 2 ^ k)))"
    by simp
next
  fix s n :: int and k :: nat
  assume "\<not> (s \<le> 0 \<or> n * 2 ^ 52 \<le> s * 2 ^ k)"
  then have pos: "0 < s" and lt: "s * 2 ^ k < n * 2 ^ 52"
    by auto
  have "s * 2 ^ k < s * 2 ^ Suc k"
    using pos by simp
  then have "nat (n * 2 ^ 52 - s * 2 ^ Suc k) < nat (n * 2 ^ 52 - s * 2 ^ k)"
    using lt by linarith
  then show "((s, n, Suc k), (s, n, k)) \<in> measure (\<lambda>(s, n, k). nat (n * 2 ^ 52 - s * 2 ^ k))"
    by simp
qed

declare norm_shift.simps [simp del]

definition round_half_even :: "rat \<Rightarrow> int" where
  "round_half_even x =
     (let f = \<lfloor>x\<rfloor>; r = x - of_int f
      in if r < 1 / 2 then f
         else if 1 / 2 < r then f + 1
         else if even f then f else f + 1)"

text \<open>
  \<open>s / n\<close> for an integer \<open>s\<close> and a count \<open>n\<close>. The caller divides only when there is at
  least one review; \<open>n = 0\<close> is not reached and is given the value \<open>0\<close>.
\<close>

definition fp_div :: "int \<Rightarrow> nat \<Rightarrow> rat" where
  "fp_div s n =
     (if s = 0 \<or> n = 0 then 0
      else (let a = \<bar>s\<bar>;
                k = norm_shift a (int n) 0;
                m = round_half_even (of_int (a * 2 ^ k) / of_nat n)
            in (if s < 0 then - 1 else 1) * of_int m / 2 ^ k))"

text \<open>
  \<open>parseFloat(x.toFixed(2))\<close>: \<open>toFixed(2)\<close> takes the integer \<open>h\<close> for which \<open>h / 100\<close> is
  nearest to the exact value of \<open>x\<close>, the larger one of two (on the absolute value, the sign
  put back); the result is the decimal \<open>h / 100\<close>.
\<close>

definition toFixed2 :: "rat \<Rightarrow> rat" where
  "toFixed2 x =
     (if x < 0 then - of_int \<lfloor>100 * (- x) + 1 / 2\<rfloor> / 100
      else of_int \<lfloor>100 * x + 1 / 2\<rfloor> / 100)"

text \<open>
  Modelled on the specification's words, for comparison with the code: \<open>r\<close> is
  \<open>round(x, 2)\<close> when it has at most two decimal places and lies within half a hundredth
  of \<open>x\<close>. The specification names no rule for an exact midpoint, so either neighbouring
  hundredth rounds a midpoint; everywhere else the rounding is unique.
\<close>

definition spec_round2 :: "rat \<Rightarrow> rat \<Rightarrow> bool" where
  "spec_round2 x r = (of_int \<lfloor>100 * r\<rfloor> = 100 * r \<and> \<bar>r - x\<bar> \<le> 1 / 200)"

text \<open>
  Also modelled on the specification's words, for comparison with the code: the ratings of
  the visible reviews of a business, picked from the review rows one by one.
\<close>

fun spec_visible_ratings :: "review list \<Rightarrow> nat \<Rightarrow> int list" where
  "spec_visible_ratings [] business = []"
| "spec_visible_ratings (r # rs) business =
     (if is_visible r \<and> rv_salon_id r = business
      then rating r # spec_visible_ratings rs business
      else spec_visible_ratings rs business)"

subsection \<open>_updateSalonRating\<close>

definition visible_ratings :: "database \<Rightarrow> nat \<Rightarrow> int list" where
  "visible_ratings db salonId =
     map rating (filter (\<lambda>r. rv_salon_id r = salonId \<and> is_visible r) (reviews db))"

definition rating_summary :: "int list \<Rightarrow> rat \<times> nat" where
  "rating_summary ratings =
     (let reviewCount = (if ratings \<noteq> [] then length ratings else 0);
          averageRating = (if ratings \<noteq> []
                           then fp_div (foldl (\<lambda>acc r. acc + r) 0 ratings) (length ratings)
                           else 0)
      in (toFixed2 averageRating, reviewCount))"

text \<open>
  \<open>_updateSalonRating\<close> carries on after a store failure: when the read of the reviews
  returns an error it logs and returns without writing, and when the update of the salon
  returns an error it only logs. Whether these two store calls fail is a parameter.
\<close>

record store_faults =
  reviews_read_fails :: bool
  salon_write_fails :: bool

definition updateSalonRating :: "store_faults \<Rightarrow> database \<Rightarrow> nat \<Rightarrow> database" where
  "updateSalonRating faults db salonId =
     (if reviews_read_fails faults then db
      else (let summary = rating_summary (visible_ratings db salonId)
            in if salon_write_fails faults then db
               else db\<lparr>salons :=
                         map (\<lambda>s. if sl_id s = salonId
                                   then s\<lparr>rating_average := fst summary,
                                           rating_count := snd summary\<rparr>
                                   else s)
                             (salons db)\<rparr>))"

subsection \<open>createReview, updateReview, deleteReview\<close>

text \<open>
  Ratings are integers (\<open>parseInt\<close> is the identity on them); a missing or zero rating is
  falsy. Whether a booking still lies in the future (\<open>bookingDate > now\<close>) is asked of the
  clock, a parameter.
\<close>

record review_request =
  rr_user :: nat
  rr_salon_id :: "nat option"
  rr_booking_id :: "nat option"
  rr_rating :: "int option"

definition createReview ::
  "(booking \<Rightarrow> bool) \<Rightarrow> store_faults \<Rightarrow> database \<Rightarrow> review_request
     \<Rightarrow> (app_error + review) \<times> database" where
  "createReview inFuture faults db rq =
     (case (rr_salon_id rq, rr_rating rq) of
        (Some salon, Some r) \<Rightarrow>
          if r = 0 then
            (Inl (AppError ''Salon ID and rating are required'' 400 ''MISSING_REQUIRED_FIELDS''), db)
          else if r < 1 \<or> r > 5 then
            (Inl (AppError ''Rating must be between 1 and 5'' 400 ''INVALID_RATING''), db)
          else
            (let refusal =
               (case rr_booking_id rq of
                  Some bid \<Rightarrow>
                    (case single (filter (\<lambda>b. booking_id b = bid \<and> client_id b = rr_user rq)
                                    (bookings db)) of
                       None \<Rightarrow> Some (AppError ''Booking not found or does not belong to you'' 404
                                        ''BOOKING_NOT_FOUND'')
                     | Some booking \<Rightarrow>
                         if inFuture booking \<and> status booking \<noteq> ''completed'' then
                           Some (AppError ''You can only review completed or past bookings'' 400
                                   ''BOOKING_NOT_COMPLETED'')
                         else if single (filter (\<lambda>v. rv_booking_id v = Some bid) (reviews db))
                                   \<noteq> None then
                           Some (AppError ''Review already exists for this booking'' 409
                                   ''REVIEW_ALREADY_EXISTS'')
                         else if salon_id booking \<noteq> salon then
                           Some (AppError ''Booking does not belong to this salon'' 400
                                   ''INVALID_SALON'')
                         else None)
                | None \<Rightarrow>
                    if filter (\<lambda>b. salon_id b = salon \<and> client_id b = rr_user rq
                                   \<and> status b = ''completed'') (bookings db) = [] then
                      Some (AppError ''You can only review salons you have completed bookings with''
                              400 ''NO_COMPLETED_BOOKINGS'')
                    else None)
             in case refusal of
                  Some e \<Rightarrow> (Inl e, db)
                | None \<Rightarrow>
                    (let row = \<lparr>rv_id = fresh_id (map rv_id (reviews db)),
                                rv_client_id = rr_user rq,
                                rv_salon_id = salon,
                                rv_booking_id = rr_booking_id rq,
                                rating = r,
                                is_visible = True\<rparr>
                     in (Inr row,
                         updateSalonRating faults (db\<lparr>reviews := reviews db @ [row]\<rparr>) salon)))
      | _ \<Rightarrow> (Inl (AppError ''Salon ID and rating are required'' 400 ''MISSING_REQUIRED_FIELDS''), db))"

record review_update =
  ru_user :: nat
  ru_reviewId :: nat
  ru_rating :: "int option"

definition updateReview ::
  "store_faults \<Rightarrow> database \<Rightarrow> review_update \<Rightarrow> (app_error + review) \<times> database" where
  "updateReview faults db rq =
     (case single (filter (\<lambda>v. rv_id v = ru_reviewId rq \<and> rv_client_id v = ru_user rq)
                     (reviews db)) of
        None \<Rightarrow> (Inl (AppError ''Review not found or you do not have permission to update it'' 404
                        ''REVIEW_NOT_FOUND''), db)
      | Some existingReview \<Rightarrow>
          if (case ru_rating rq of None \<Rightarrow> False | Some r \<Rightarrow> r < 1 \<or> r > 5) then
            (Inl (AppError ''Rating must be between 1 and 5'' 400 ''INVALID_RATING''), db)
          else
            (let upd = (\<lambda>v. case ru_rating rq of None \<Rightarrow> v | Some r \<Rightarrow> v\<lparr>rating := r\<rparr>)
             in (Inr (upd existingReview),
                 updateSalonRating faults
                   (db\<lparr>reviews := map (\<lambda>v. if rv_id v = ru_reviewId rq then upd v else v)
                                       (reviews db)\<rparr>)
                   (rv_salon_id existingReview))))"

record review_delete =
  rd_user :: nat
  rd_reviewId :: nat

definition deleteReview ::
  "store_faults \<Rightarrow> database \<Rightarrow> review_delete \<Rightarrow> (app_error + unit) \<times> database" where
  "deleteReview faults db rq =
     (case single (filter (\<lambda>v. rv_id v = rd_reviewId rq \<and> rv_client_id v = rd_user rq)
                     (reviews db)) of
        None \<Rightarrow> (Inl (AppError ''Review not found or you do not have permission to delete it'' 404
                        ''REVIEW_NOT_FOUND''), db)
      | Some existingReview \<Rightarrow>
          (Inr (),
           updateSalonRating faults
             (db\<lparr>reviews := map (\<lambda>v. if rv_id v = rd_reviewId rq then v\<lparr>is_visible := False\<rparr> else v)
                                 (reviews db)\<rparr>)
             (rv_salon_id existingReview)))"

section \<open>Example data\<close>

text \<open>
  One salon (id 1, owned by user 10) with a service of 60 minutes (id 1), one of 30 minutes
  (id 2) and one whose duration is 0 (id 3); user 30 is on its staff; users 20 and 21 are
  clients. The concrete statements below are made on this salon, with the bookings given.
\<close>

definition demo_booking ::
  "nat \<Rightarrow> nat \<Rightarrow> nat \<Rightarrow> nat option \<Rightarrow> int \<Rightarrow> int \<Rightarrow> string \<Rightarrow> booking" where
  "demo_booking bid client svc staffId startTime endTime st =
     \<lparr>booking_id = bid, client_id = client, salon_id = 1, service_id = svc,
      staff_id = staffId, appointment_date = ''2025-06-02'',
      start_time = startTime, end_time = endTime, status = st,
      salon_notes = None, cancellation_reason = None\<rparr>"

definition demo_db :: "booking list \<Rightarrow> database" where
  "demo_db bs =
     \<lparr>bookings = bs,
      services = [\<lparr>sv_id = 1, sv_salon_id = 1, duration = 60\<rparr>,
                  \<lparr>sv_id = 2, sv_salon_id = 1, duration = 30\<rparr>,
                  \<lparr>sv_id = 3, sv_salon_id = 1, duration = 0\<rparr>],
      salons = [\<lparr>sl_id = 1, owner_id = 10, rating_average = 0, rating_count = 0\<rparr>],
      staff = [\<lparr>st_id = 1, st_salon_id = 1, st_user_id = 30\<rparr>],
      family_members = [],
      reviews = []\<rparr>"

text \<open>
  The date arithmetic of the examples: a server whose time zone has no daylight-saving change
  on the dates used, all of which parse. The end is the start plus the minutes added, read
  as a time of day.
\<close>

definition demo_end_time :: date_arithmetic where
  "demo_end_time date startTime minutes = Some ((startTime + minutes) mod 1440)"

definition no_faults :: store_faults where
  "no_faults = \<lparr>reviews_read_fails = False, salon_write_fails = False\<rparr>"

definition read_fault :: store_faults where
  "read_fault = \<lparr>reviews_read_fails = True, salon_write_fails = False\<rparr>"

text \<open>
  A store with reviews: salon 1 has a visible review rated 5 (by client 21) and a hidden one
  rated 1; salon 2 has a visible review rated 1. Client 20 has a completed booking at salon 1.
\<close>

definition demo_review_row :: "nat \<Rightarrow> nat \<Rightarrow> nat \<Rightarrow> int \<Rightarrow> bool \<Rightarrow> review" where
  "demo_review_row rid client business r visible =
     \<lparr>rv_id = rid, rv_client_id = client, rv_salon_id = business, rv_booking_id = None,
      rating = r, is_visible = visible\<rparr>"

definition demo_review_db :: "salon list \<Rightarrow> review list \<Rightarrow> database" where
  "demo_review_db sls rvs =
     \<lparr>bookings = [demo_booking 1 20 1 None 540 600 ''completed''],
      services = [\<lparr>sv_id = 1, sv_salon_id = 1, duration = 60\<rparr>],
      salons = sls,
      staff = [],
      family_members = [],
      reviews = rvs\<rparr>"

definition demo_salon :: "nat \<Rightarrow> rat \<Rightarrow> nat \<Rightarrow> salon" where
  "demo_salon sid average count =
     \<lparr>sl_id = sid, owner_id = 10, rating_average = average, rating_count = count\<rparr>"

definition demo_reviews :: "review list" where
  "demo_reviews = [demo_review_row 1 21 1 5 True, demo_review_row 2 22 1 1 False,
                   demo_review_row 3 23 2 1 True]"

definition not_in_future :: "booking \<Rightarrow> bool" where
  "not_in_future b = False"

definition demo_review_update :: "nat \<Rightarrow> nat \<Rightarrow> int \<Rightarrow> review_update" where
  "demo_review_update user rid r = \<lparr>ru_user = user, ru_reviewId = rid, ru_rating = Some r\<rparr>"

definition demo_review_delete :: "nat \<Rightarrow> nat \<Rightarrow> review_delete" where
  "demo_review_delete user rid = \<lparr>rd_user = user, rd_reviewId = rid\<rparr>"

definition demo_clock :: clock where
  "demo_clock = \<lparr>today = ''2025-06-01'', localHours = 16, localMinutes = 40\<rparr>"

definition waitlist_returns :: dispatcher where
  "waitlist_returns freed = None"

definition demo_review :: "nat \<Rightarrow> int \<Rightarrow> review_request" where
  "demo_review user r =
     \<lparr>rr_user = user, rr_salon_id = Some 1, rr_booking_id = None, rr_rating = Some r\<rparr>"

definition demo_cancel :: "nat \<Rightarrow> nat \<Rightarrow> cancel_request" where
  "demo_cancel user bid = \<lparr>cn_user = user, cn_bookingId = bid, cn_cancellation_reason = None\<rparr>"

definition demo_create :: "nat \<Rightarrow> nat \<Rightarrow> nat option \<Rightarrow> int \<Rightarrow> create_request" where
  "demo_create user svc staffId startTime =
     \<lparr>cr_user = user, cr_salon_id = Some 1, cr_service_id = Some svc, cr_staff_id = staffId,
      cr_appointment_date = Some ''2025-06-02'', cr_start_time = Some startTime,
      cr_family_member_id = None\<rparr>"

definition demo_reschedule :: "nat \<Rightarrow> nat \<Rightarrow> string \<Rightarrow> int \<Rightarrow> reschedule_request" where
  "demo_reschedule user bid date startTime =
     \<lparr>rs_user = user, rs_bookingId = bid, rs_appointment_date = Some date,
      rs_start_time = Some startTime\<rparr>"

definition demo_status :: "nat \<Rightarrow> nat \<Rightarrow> string \<Rightarrow> status_request" where
  "demo_status user bid st =
     \<lparr>us_user = user, us_bookingId = bid, us_status = st, us_staff_notes = None,
      us_cancellation_reason = None\<rparr>"

section \<open>Properties of the availability calculation\<close>

lemmas demo_defs = demo_db_def demo_booking_def demo_status_def demo_create_def
  demo_reschedule_def demo_clock_def waitlist_returns_def demo_cancel_def demo_review_def
  demo_end_time_def no_faults_def read_fault_def demo_review_row_def demo_review_db_def
  demo_salon_def demo_reviews_def not_in_future_def demo_review_update_def
  demo_review_delete_def

lemma calculate_not_today:
  "\<not> booking_for_today now appointmentDate \<Longrightarrow>
   calculateAvailableSlots now openTime closeTime serviceDuration existingBookings appointmentDate =
   (case (timeStringToMinutes openTime, timeStringToMinutes closeTime) of
      (Some opening, Some closing) \<Rightarrow> slot_walk opening closing serviceDuration existingBookings
    | _ \<Rightarrow> [])"
  by (simp add: calculateAvailableSlots_def timeStringToMinutes_def Let_def split: option.splits)

lemma slot_walk_emits:
  "currentTime + slotInterval * int k + serviceDuration \<le> endTime \<Longrightarrow>
   \<not> hasConflict (currentTime + slotInterval * int k) serviceDuration existingBookings \<Longrightarrow>
   \<lparr>slot_start_time = minutesToTimeString (currentTime + slotInterval * int k),
    slot_end_time = minutesToTimeString (currentTime + slotInterval * int k + serviceDuration)\<rparr>
     \<in> set (slot_walk currentTime endTime serviceDuration existingBookings)"
proof (induction k arbitrary: currentTime)
  case 0
  then show ?case
    by (subst slot_walk.simps) simp
next
  case (Suc k)
  have step: "currentTime + slotInterval * int (Suc k)
                = (currentTime + slotInterval) + slotInterval * int k"
    by (simp add: algebra_simps)
  have here: "currentTime + serviceDuration \<le> endTime"
    using Suc.prems(1) by (simp add: slotInterval_def)
  have fits: "(currentTime + slotInterval) + slotInterval * int k + serviceDuration \<le> endTime"
    using Suc.prems(1) unfolding step .
  have free: "\<not> hasConflict ((currentTime + slotInterval) + slotInterval * int k)
                   serviceDuration existingBookings"
    using Suc.prems(2) unfolding step .
  have "\<lparr>slot_start_time = minutesToTimeString ((currentTime + slotInterval) + slotInterval * int k),
         slot_end_time = minutesToTimeString
                           ((currentTime + slotInterval) + slotInterval * int k + serviceDuration)\<rparr>
          \<in> set (slot_walk (currentTime + slotInterval) endTime serviceDuration existingBookings)"
    using fits free by (rule Suc.IH)
  then show ?case
    unfolding step using here by (subst slot_walk.simps) simp
qed

lemma nine_to_six_hour_slots:
  "hd (calculateAvailableSlots now ''09:00'' ''18:00'' 60 [] None)
     = \<lparr>slot_start_time = ''09:00'', slot_end_time = ''10:00''\<rparr>
   \<and> last (calculateAvailableSlots now ''09:00'' ''18:00'' 60 [] None)
     = \<lparr>slot_start_time = ''17:00'', slot_end_time = ''18:00''\<rparr>
   \<and> length (calculateAvailableSlots now ''09:00'' ''18:00'' 60 [] None) = 33"
  by code_simp

text \<open>
  Claim C4, as the specification states it: for business hours 09:00 to 18:00, a service of
  60 minutes, steps of 15 minutes, no existing reservation and no same-day cutoff, the first
  slot is 09:00-10:00, the last slot is 17:00-18:00 and there are 37 slots. The count fails:
  the walk stops at the last start with \<open>start + 60 \<le> 18:00\<close>, which is 17:00, so the
  starts are 09:00, 09:15, ..., 17:00.
\<close>

theorem C4_thirty_seven_slots_counterexample:
  "\<not> (hd (calculateAvailableSlots \<lparr>today = ''2025-06-02'', localHours = 8, localMinutes = 0\<rparr>
             ''09:00'' ''18:00'' 60 [] None)
          = \<lparr>slot_start_time = ''09:00'', slot_end_time = ''10:00''\<rparr>
        \<and> last (calculateAvailableSlots \<lparr>today = ''2025-06-02'', localHours = 8, localMinutes = 0\<rparr>
                  ''09:00'' ''18:00'' 60 [] None)
          = \<lparr>slot_start_time = ''17:00'', slot_end_time = ''18:00''\<rparr>
        \<and> length (calculateAvailableSlots \<lparr>today = ''2025-06-02'', localHours = 8, localMinutes = 0\<rparr>
                    ''09:00'' ''18:00'' 60 [] None) = 37)"
  using nine_to_six_hour_slots
          [of "\<lparr>today = ''2025-06-02'', localHours = 8, localMinutes = 0\<rparr>"]
  by simp

text \<open>
  Claim C4, amended: under the same conditions (the appointment date absent, or not the
  clock's date) the first slot is 09:00-10:00, the last slot is 17:00-18:00 and the list has
  exactly 33 slots.
\<close>

theorem C4_nine_to_six_has_33_slots:
  assumes "\<not> booking_for_today now appointmentDate"
  shows "hd (calculateAvailableSlots now ''09:00'' ''18:00'' 60 [] appointmentDate)
           = \<lparr>slot_start_time = ''09:00'', slot_end_time = ''10:00''\<rparr>
         \<and> last (calculateAvailableSlots now ''09:00'' ''18:00'' 60 [] appointmentDate)
           = \<lparr>slot_start_time = ''17:00'', slot_end_time = ''18:00''\<rparr>
         \<and> length (calculateAvailableSlots now ''09:00'' ''18:00'' 60 [] appointmentDate) = 33"
proof -
  have none: "\<not> booking_for_today now None"
    by (simp add: booking_for_today_def)
  have "calculateAvailableSlots now ''09:00'' ''18:00'' 60 [] appointmentDate
          = calculateAvailableSlots now ''09:00'' ''18:00'' 60 [] None"
    by (simp only: calculate_not_today [OF assms] calculate_not_today [OF none])
  then show ?thesis
    using nine_to_six_hour_slots [of now] by simp
qed

theorem C4_nine_to_six_has_33_slots_witness:
  "\<not> booking_for_today \<lparr>today = ''2025-06-02'', localHours = 16, localMinutes = 40\<rparr>
        (Some ''2025-06-03'')
   \<and> hd (calculateAvailableSlots \<lparr>today = ''2025-06-02'', localHours = 16, localMinutes = 40\<rparr>
            ''09:00'' ''18:00'' 60 [] (Some ''2025-06-03''))
       = \<lparr>slot_start_time = ''09:00'', slot_end_time = ''10:00''\<rparr>
   \<and> last (calculateAvailableSlots \<lparr>today = ''2025-06-02'', localHours = 16, localMinutes = 40\<rparr>
              ''09:00'' ''18:00'' 60 [] (Some ''2025-06-03''))
       = \<lparr>slot_start_time = ''17:00'', slot_end_time = ''18:00''\<rparr>
   \<and> length (calculateAvailableSlots \<lparr>today = ''2025-06-02'', localHours = 16, localMinutes = 40\<rparr>
                ''09:00'' ''18:00'' 60 [] (Some ''2025-06-03'')) = 33"
proof -
  have other_day: "\<not> booking_for_today \<lparr>today = ''2025-06-02'', localHours = 16, localMinutes = 40\<rparr>
                        (Some ''2025-06-03'')"
    by (simp add: booking_for_today_def normalise_date_def)
  show ?thesis
    using other_day C4_nine_to_six_has_33_slots [OF other_day] by simp
qed

section \<open>Properties of the reservation lifecycle\<close>

lemma client_request_refused:
  assumes found: "single (filter (\<lambda>b. booking_id b = us_bookingId rq) (bookings db)) = Some booking"
    and salon: "single (filter (\<lambda>s. sl_id s = salon_id booking) (salons db)) = Some sal"
    and client: "client_id booking = us_user rq"
    and not_owner: "owner_id sal \<noteq> us_user rq"
    and valid: "us_status rq \<in> set validStatuses"
    and target: "us_status rq \<noteq> ''cancelled''"
  shows "updateBookingStatus processWaitlist db rq =
           (Inl (AppError ''Clients can only cancel bookings'' 403 ''CLIENT_CAN_ONLY_CANCEL''), db, [])"
  using assms by (simp add: updateBookingStatus_def Let_def)

lemma status_update_dispatch:
  assumes found: "single (filter (\<lambda>b. booking_id b = us_bookingId rq) (bookings db)) = Some booking"
    and ok: "updateBookingStatus processWaitlist db rq = (Inr updated, db', calls)"
  shows "calls = (if us_status rq = ''cancelled''
                  then [(salon_id booking, service_id booking,
                         appointment_date booking, start_time booking)]
                  else [])"
  using ok unfolding updateBookingStatus_def Let_def found
  by (auto split: if_splits option.splits thrown.splits)

lemma owner_cancel_dispatch:
  assumes found: "single (filter (\<lambda>b. booking_id b = cn_bookingId rq) (bookings db)) = Some booking"
    and ok: "cancelBookingAsSalonOwner processWaitlist db rq = (Inr updated, db', calls)"
  shows "calls = [(salon_id booking, service_id booking,
                   appointment_date booking, start_time booking)]"
  using ok unfolding cancelBookingAsSalonOwner_def Let_def found
  by (auto split: if_splits option.splits)

text \<open>
  Claim C2: terminal states are absorbing. A reservation whose status is completed,
  cancelled or no\_show rejects every status request, by any role and to any target, and
  keeps its status. \<open>updateBookingStatus\<close> never reads the current status, while its
  siblings do: \<open>rescheduleBooking\<close> refuses a reservation that is not pending or confirmed,
  and \<open>cancelBookingAsSalonOwner\<close> refuses one that is already cancelled. Evaluated on the
  example salon: the owner moves a completed reservation back to pending; the client cancels
  a completed reservation, and the waitlist is called for its slot; a staff member moves a
  no\_show reservation to pending; the owner cancels a cancelled reservation once more, with
  a second call to the waitlist. The same completed reservation cannot be rescheduled, and
  the same cancelled reservation cannot be cancelled through the owner's cancel handler.
\<close>

theorem C2_terminal_states_are_left:
  "updateBookingStatus waitlist_returns
       (demo_db [demo_booking 1 20 1 None 540 600 ''completed'']) (demo_status 10 1 ''pending'')
     = (Inr (demo_booking 1 20 1 None 540 600 ''pending''),
        demo_db [demo_booking 1 20 1 None 540 600 ''pending''], [])
   \<and> updateBookingStatus waitlist_returns
       (demo_db [demo_booking 1 20 1 None 540 600 ''completed'']) (demo_status 20 1 ''cancelled'')
     = (Inr (demo_booking 1 20 1 None 540 600 ''cancelled''),
        demo_db [demo_booking 1 20 1 None 540 600 ''cancelled''],
        [(1, 1, ''2025-06-02'', 540)])
   \<and> updateBookingStatus waitlist_returns
       (demo_db [demo_booking 1 20 1 None 540 600 ''no_show'']) (demo_status 30 1 ''pending'')
     = (Inr (demo_booking 1 20 1 None 540 600 ''pending''),
        demo_db [demo_booking 1 20 1 None 540 600 ''pending''], [])
   \<and> updateBookingStatus waitlist_returns
       (demo_db [demo_booking 1 20 1 None 540 600 ''cancelled'']) (demo_status 10 1 ''cancelled'')
     = (Inr (demo_booking 1 20 1 None 540 600 ''cancelled''),
        demo_db [demo_booking 1 20 1 None 540 600 ''cancelled''],
        [(1, 1, ''2025-06-02'', 540)])
   \<and> rescheduleBooking demo_end_time
       (demo_db [demo_booking 1 20 1 None 540 600 ''completed''])
       (demo_reschedule 20 1 ''2025-06-02'' 840)
     = (Inl (AppError ''Can only reschedule pending or confirmed bookings'' 400 ''INVALID_STATUS''),
        demo_db [demo_booking 1 20 1 None 540 600 ''completed''])
   \<and> cancelBookingAsSalonOwner waitlist_returns
       (demo_db [demo_booking 1 20 1 None 540 600 ''cancelled'']) (demo_cancel 10 1)
     = (Inl (AppError ''Booking is already cancelled'' 400 ''BOOKING_ALREADY_CANCELLED''),
        demo_db [demo_booking 1 20 1 None 540 600 ''cancelled''], [])"
proof -
  have owner_reopens: "updateBookingStatus waitlist_returns
       (demo_db [demo_booking 1 20 1 None 540 600 ''completed'']) (demo_status 10 1 ''pending'')
     = (Inr (demo_booking 1 20 1 None 540 600 ''pending''),
        demo_db [demo_booking 1 20 1 None 540 600 ''pending''], [])"
    by (simp add: updateBookingStatus_def demo_defs validStatuses_def apply_status_update_def
          Let_def)
  have client_cancels: "updateBookingStatus waitlist_returns
       (demo_db [demo_booking 1 20 1 None 540 600 ''completed'']) (demo_status 20 1 ''cancelled'')
     = (Inr (demo_booking 1 20 1 None 540 600 ''cancelled''),
        demo_db [demo_booking 1 20 1 None 540 600 ''cancelled''],
        [(1, 1, ''2025-06-02'', 540)])"
    by (simp add: updateBookingStatus_def demo_defs validStatuses_def apply_status_update_def
          Let_def)
  have staff_reopens: "updateBookingStatus waitlist_returns
       (demo_db [demo_booking 1 20 1 None 540 600 ''no_show'']) (demo_status 30 1 ''pending'')
     = (Inr (demo_booking 1 20 1 None 540 600 ''pending''),
        demo_db [demo_booking 1 20 1 None 540 600 ''pending''], [])"
    by (simp add: updateBookingStatus_def demo_defs validStatuses_def apply_status_update_def
          Let_def)
  have cancelled_again: "updateBookingStatus waitlist_returns
       (demo_db [demo_booking 1 20 1 None 540 600 ''cancelled'']) (demo_status 10 1 ''cancelled'')
     = (Inr (demo_booking 1 20 1 None 540 600 ''cancelled''),
        demo_db [demo_booking 1 20 1 None 540 600 ''cancelled''],
        [(1, 1, ''2025-06-02'', 540)])"
    by (simp add: updateBookingStatus_def demo_defs validStatuses_def apply_status_update_def
          Let_def)
  have no_reschedule: "rescheduleBooking demo_end_time
       (demo_db [demo_booking 1 20 1 None 540 600 ''completed''])
       (demo_reschedule 20 1 ''2025-06-02'' 840)
     = (Inl (AppError ''Can only reschedule pending or confirmed bookings'' 400 ''INVALID_STATUS''),
        demo_db [demo_booking 1 20 1 None 540 600 ''completed''])"
    by (simp add: rescheduleBooking_def demo_defs Let_def)
  have no_second_cancel: "cancelBookingAsSalonOwner waitlist_returns
       (demo_db [demo_booking 1 20 1 None 540 600 ''cancelled'']) (demo_cancel 10 1)
     = (Inl (AppError ''Booking is already cancelled'' 400 ''BOOKING_ALREADY_CANCELLED''),
        demo_db [demo_booking 1 20 1 None 540 600 ''cancelled''], [])"
    by (simp add: cancelBookingAsSalonOwner_def demo_defs Let_def)
  show ?thesis
    by (intro conjI)
       (rule owner_reopens client_cancels staff_reopens cancelled_again no_reschedule
             no_second_cancel)+
qed

text \<open>
  Claim C7: a client who is not the owner may only cancel. For a reservation in pending or
  confirmed state, a status request of its client with a valid target other than cancelled is
  answered with the 403 error \<open>CLIENT_CAN_ONLY_CANCEL\<close>; the store is left as it was and the
  waitlist is not called. A request to confirm is one such request.
\<close>

theorem C7_client_may_only_cancel:
  assumes "single (filter (\<lambda>b. booking_id b = us_bookingId rq) (bookings db)) = Some booking"
    and "single (filter (\<lambda>s. sl_id s = salon_id booking) (salons db)) = Some sal"
    and "status booking = ''pending'' \<or> status booking = ''confirmed''"
    and "client_id booking = us_user rq"
    and "owner_id sal \<noteq> us_user rq"
    and "us_status rq \<in> set validStatuses"
    and "us_status rq \<noteq> ''cancelled''"
  shows "updateBookingStatus processWaitlist db rq =
           (Inl (AppError ''Clients can only cancel bookings'' 403 ''CLIENT_CAN_ONLY_CANCEL''), db, [])
         \<and> statusCode (AppError ''Clients can only cancel bookings'' 403 ''CLIENT_CAN_ONLY_CANCEL'')
             = 403"
  using assms client_request_refused [of rq db booking sal processWaitlist] by simp

theorem C7_client_may_only_cancel_witness:
  "updateBookingStatus waitlist_returns
     (demo_db [demo_booking 1 20 1 None 540 600 ''pending'']) (demo_status 20 1 ''confirmed'')
   = (Inl (AppError ''Clients can only cancel bookings'' 403 ''CLIENT_CAN_ONLY_CANCEL''),
      demo_db [demo_booking 1 20 1 None 540 600 ''pending''], [])"
  using C7_client_may_only_cancel
     [of "demo_status 20 1 ''confirmed''" "demo_db [demo_booking 1 20 1 None 540 600 ''pending'']"
         "demo_booking 1 20 1 None 540 600 ''pending''"
         "\<lparr>sl_id = 1, owner_id = 10, rating_average = 0, rating_count = 0\<rparr>" waitlist_returns]
  by (simp add: demo_defs validStatuses_def)

text \<open>
  Claim C8: a cancellation calls the waitlist exactly once. Whenever a status request
  succeeds, the calls made to \<open>processWaitlistForCancelledBooking\<close> are: for the target
  cancelled, one call, with the salon, service, date and start time of the reservation; for
  any other target, none. The owner's own cancel handler, when it succeeds, makes the same
  single call. (The other handlers, create and reschedule, have no call to the waitlist at
  all.)
\<close>

theorem C8_cancellation_dispatches_once:
  "(single (filter (\<lambda>b. booking_id b = us_bookingId rq) (bookings db)) = Some booking
      \<and> updateBookingStatus processWaitlist db rq = (Inr updated, db', calls)
    \<longrightarrow> (us_status rq = ''cancelled'' \<longrightarrow>
            calls = [(salon_id booking, service_id booking,
                      appointment_date booking, start_time booking)])
        \<and> (us_status rq \<noteq> ''cancelled'' \<longrightarrow> calls = []))
   \<and> (single (filter (\<lambda>b. booking_id b = cn_bookingId cr) (bookings db)) = Some booking2
      \<and> cancelBookingAsSalonOwner processWaitlist db cr = (Inr updated2, db2, calls2)
    \<longrightarrow> calls2 = [(salon_id booking2, service_id booking2,
                    appointment_date booking2, start_time booking2)])"
proof (rule conjI)
  show "single (filter (\<lambda>b. booking_id b = us_bookingId rq) (bookings db)) = Some booking
      \<and> updateBookingStatus processWaitlist db rq = (Inr updated, db', calls)
    \<longrightarrow> (us_status rq = ''cancelled'' \<longrightarrow>
            calls = [(salon_id booking, service_id booking,
                      appointment_date booking, start_time booking)])
        \<and> (us_status rq \<noteq> ''cancelled'' \<longrightarrow> calls = [])"
  proof
    assume h: "single (filter (\<lambda>b. booking_id b = us_bookingId rq) (bookings db)) = Some booking
      \<and> updateBookingStatus processWaitlist db rq = (Inr updated, db', calls)"
    have "calls = (if us_status rq = ''cancelled''
                   then [(salon_id booking, service_id booking,
                          appointment_date booking, start_time booking)]
                   else [])"
      using h by (intro status_update_dispatch) blast+
    then show "(us_status rq = ''cancelled'' \<longrightarrow>
            calls = [(salon_id booking, service_id booking,
                      appointment_date booking, start_time booking)])
        \<and> (us_status rq \<noteq> ''cancelled'' \<longrightarrow> calls = [])"
      by simp
  qed
next
  show "single (filter (\<lambda>b. booking_id b = cn_bookingId cr) (bookings db)) = Some booking2
      \<and> cancelBookingAsSalonOwner processWaitlist db cr = (Inr updated2, db2, calls2)
    \<longrightarrow> calls2 = [(salon_id booking2, service_id booking2,
                    appointment_date booking2, start_time booking2)]"
  proof
    assume h: "single (filter (\<lambda>b. booking_id b = cn_bookingId cr) (bookings db)) = Some booking2
      \<and> cancelBookingAsSalonOwner processWaitlist db cr = (Inr updated2, db2, calls2)"
    show "calls2 = [(salon_id booking2, service_id booking2,
                    appointment_date booking2, start_time booking2)]"
      using h by (intro owner_cancel_dispatch) blast+
  qed
qed

theorem C8_cancellation_dispatches_once_witness:
  "updateBookingStatus waitlist_returns
     (demo_db [demo_booking 1 20 1 None 540 600 ''pending'']) (demo_status 10 1 ''cancelled'')
   = (Inr (demo_booking 1 20 1 None 540 600 ''cancelled''),
      demo_db [demo_booking 1 20 1 None 540 600 ''cancelled''],
      [(1, 1, ''2025-06-02'', 540)])"
proof -
  let ?b = "demo_booking 1 20 1 None 540 600 ''pending''"
  let ?db = "demo_db [?b]"
  let ?rq = "demo_status 10 1 ''cancelled''"
  let ?calls = "snd (snd (updateBookingStatus waitlist_returns ?db ?rq))"
  have found: "single (filter (\<lambda>b. booking_id b = us_bookingId ?rq) (bookings ?db)) = Some ?b"
    by (simp add: demo_defs)
  have run: "updateBookingStatus waitlist_returns ?db ?rq
               = (Inr (demo_booking 1 20 1 None 540 600 ''cancelled''),
                  demo_db [demo_booking 1 20 1 None 540 600 ''cancelled''], ?calls)"
    by (simp add: updateBookingStatus_def demo_defs validStatuses_def apply_status_update_def
          Let_def)
  have "(us_status ?rq = ''cancelled'' \<longrightarrow>
            ?calls = [(salon_id ?b, service_id ?b, appointment_date ?b, start_time ?b)])
        \<and> (us_status ?rq \<noteq> ''cancelled'' \<longrightarrow> ?calls = [])"
    using C8_cancellation_dispatches_once
            [of ?rq ?db ?b waitlist_returns "demo_booking 1 20 1 None 540 600 ''cancelled''"
                "demo_db [demo_booking 1 20 1 None 540 600 ''cancelled'']" ?calls,
             THEN conjunct1]
          found run
    by blast
  then have "?calls = [(1, 1, ''2025-06-02'', 540)]"
    by (simp add: demo_defs)
  then show ?thesis
    using run by simp
qed

section \<open>Properties of conflict detection and of the stored interval\<close>

lemma adjacent_no_overlap:
  assumes "timeStringToMinutes (slot_end_time b) = Some candidate
           \<or> timeStringToMinutes (slot_start_time b) = Some (candidate + serviceDuration)"
  shows "\<not> overlaps_booking candidate serviceDuration b"
  using assms by (auto simp: overlaps_booking_def split: option.splits)

lemma adjacent_no_conflict:
  assumes "list_all (\<lambda>b. timeStringToMinutes (slot_end_time b) = Some candidate
                        \<or> timeStringToMinutes (slot_start_time b) = Some (candidate + serviceDuration))
             existingBookings"
  shows "\<not> hasConflict candidate serviceDuration existingBookings"
  using assms adjacent_no_overlap
  by (auto simp: hasConflict_def list_all_iff list_ex_iff)

lemma adjacent_rows_no_conflict:
  assumes "list_all (\<lambda>row. end_time row = startTime \<or> start_time row = endTime) (bookings db)"
  shows "create_conflicts db salon date startTime endTime = []"
  using assms by (auto simp: create_conflicts_def list_all_iff filter_empty_conv)


lemma create_without_conflict:
  assumes "cr_salon_id rq = Some salon" and "cr_service_id rq = Some svc"
    and "cr_appointment_date rq = Some date" and "cr_start_time rq = Some startTime"
    and "single (filter (\<lambda>s. sv_id s = svc) (services db)) = Some service"
    and "list_all (\<lambda>row. end_time row = startTime
                        \<or> Some (start_time row) = endTimeAfter date startTime (duration service))
           (bookings db)"
  shows "\<not> is_slot_conflict (fst (createBooking endTimeAfter db rq))"
proof (cases "endTimeAfter date startTime (duration service)")
  case None
  then show ?thesis
    using assms unfolding createBooking_def Let_def is_slot_conflict_def
    by (auto split: option.splits if_splits)
next
  case (Some endTime)
  then have "list_all (\<lambda>row. end_time row = startTime \<or> start_time row = endTime) (bookings db)"
    using assms(6) by (auto simp: list_all_iff)
  then have "create_conflicts db salon date startTime endTime = []"
    by (rule adjacent_rows_no_conflict)
  then show ?thesis
    using assms Some unfolding createBooking_def Let_def is_slot_conflict_def
    by (auto split: option.splits if_splits)
qed





lemma create_accepts:
  assumes "cr_salon_id rq = Some salon" and "cr_service_id rq = Some svc"
    and "cr_appointment_date rq = Some date" and "date \<noteq> []"
    and "cr_start_time rq = Some startTime" and "\<not> family_member_missing db rq"
    and "single (filter (\<lambda>s. sv_id s = svc) (services db)) = Some service"
    and "sv_salon_id service = salon"
    and "single (filter (\<lambda>s. sl_id s = salon) (salons db)) = Some sal"
    and "endTimeAfter date startTime (duration service) = Some endTime"
    and "create_conflicts db salon date startTime endTime = []"
  shows "\<exists>row. createBooking endTimeAfter db rq = (Inr row, db\<lparr>bookings := bookings db @ [row]\<rparr>)
               \<and> start_time row = startTime
               \<and> end_time row = endTime"
  using assms by (simp add: createBooking_def Let_def)

text \<open>
  Claim C1: a reschedule answers \<open>TIME_SLOT_CONFLICT\<close> exactly when the new interval overlaps
  another non-cancelled reservation of the salon on the new date (half-open test). The
  query of \<open>rescheduleBooking\<close> is not that test. Evaluated on the example salon: with a
  confirmed 09:00-10:00 reservation of another client, moving the 11:00-12:00 reservation to
  14:00-15:00 overlaps nothing (the query of \<open>createBooking\<close> finds no conflict for that
  interval) and is refused with \<open>TIME_SLOT_CONFLICT\<close>; with a confirmed 14:15-14:45
  reservation, the same move overlaps it and is accepted.
\<close>

theorem C1_reschedule_conflict_check_misfires:
  "\<not> list_ex (overlaps_interval 840 900) [demo_booking 1 20 1 None 540 600 ''confirmed'']
   \<and> create_conflicts (demo_db [demo_booking 1 20 1 None 540 600 ''confirmed'',
                                 demo_booking 2 21 1 None 660 720 ''confirmed''])
       1 ''2025-06-02'' 840 900 = []
   \<and> rescheduleBooking demo_end_time
       (demo_db [demo_booking 1 20 1 None 540 600 ''confirmed'',
                 demo_booking 2 21 1 None 660 720 ''confirmed''])
       (demo_reschedule 21 2 ''2025-06-02'' 840)
     = (Inl (AppError ''Time slot not available'' 409 ''TIME_SLOT_CONFLICT''),
        demo_db [demo_booking 1 20 1 None 540 600 ''confirmed'',
                 demo_booking 2 21 1 None 660 720 ''confirmed''])
   \<and> list_ex (overlaps_interval 840 900) [demo_booking 3 20 2 None 855 885 ''confirmed'']
   \<and> rescheduleBooking demo_end_time
       (demo_db [demo_booking 2 21 1 None 660 720 ''confirmed'',
                 demo_booking 3 20 2 None 855 885 ''confirmed''])
       (demo_reschedule 21 2 ''2025-06-02'' 840)
     = (Inr (demo_booking 2 21 1 None 840 900 ''pending''),
        demo_db [demo_booking 2 21 1 None 840 900 ''pending'',
                 demo_booking 3 20 2 None 855 885 ''confirmed''])"
  by (simp add: rescheduleBooking_def reschedule_conflicts_def create_conflicts_def
        overlaps_interval_def demo_defs Let_def)

text \<open>
  Claim C3: with a staff member named in the create request, only reservations of that staff
  member can cause \<open>TIME_SLOT_CONFLICT\<close>. The conflict query of \<open>createBooking\<close> never looks
  at \<open>staff_id\<close>, while the bookings query of \<open>getAvailableSlots\<close> does. Evaluated on the
  example salon: staff member 2 has a confirmed 10:00-11:00 reservation; for staff member 1
  the slot list offers 10:00-11:00, and the request to book it for staff member 1 is refused
  with \<open>TIME_SLOT_CONFLICT\<close>.
\<close>

theorem C3_other_staff_blocks_creation:
  "createBooking demo_end_time (demo_db [demo_booking 1 20 1 (Some 2) 600 660 ''confirmed''])
       (demo_create 21 1 (Some 1) 600)
     = (Inl (AppError ''Time slot not available'' 409 ''TIME_SLOT_CONFLICT''),
        demo_db [demo_booking 1 20 1 (Some 2) 600 660 ''confirmed''])
   \<and> existingBookings_query (demo_db [demo_booking 1 20 1 (Some 2) 600 660 ''confirmed''])
        1 ''2025-06-02'' (Some 1) = []
   \<and> \<lparr>slot_start_time = ''10:00'', slot_end_time = ''11:00''\<rparr>
       \<in> set (calculateAvailableSlots demo_clock ''09:00'' ''18:00'' 60
                 (existingBookings_query
                    (demo_db [demo_booking 1 20 1 (Some 2) 600 660 ''confirmed''])
                    1 ''2025-06-02'' (Some 1))
                 (Some ''2025-06-02''))"
proof -
  have listed: "existingBookings_query (demo_db [demo_booking 1 20 1 (Some 2) 600 660 ''confirmed''])
        1 ''2025-06-02'' (Some 1) = []"
    by (simp add: existingBookings_query_def demo_defs)
  have refused: "createBooking demo_end_time
       (demo_db [demo_booking 1 20 1 (Some 2) 600 660 ''confirmed''])
       (demo_create 21 1 (Some 1) 600)
     = (Inl (AppError ''Time slot not available'' 409 ''TIME_SLOT_CONFLICT''),
        demo_db [demo_booking 1 20 1 (Some 2) 600 660 ''confirmed''])"
    by (simp add: createBooking_def create_conflicts_def family_member_missing_def
        demo_defs Let_def)
  have offered: "\<lparr>slot_start_time = ''10:00'', slot_end_time = ''11:00''\<rparr>
       \<in> set (calculateAvailableSlots demo_clock ''09:00'' ''18:00'' 60 [] (Some ''2025-06-02''))"
    by code_simp
  show ?thesis
    using listed refused offered by simp
qed

text \<open>
  Claim C5: intervals are half-open, so a slot that only touches a reservation does not
  conflict with it. In the availability calculation: a reservation whose end is the
  candidate's start, or whose start is the candidate's end, does not make the candidate
  conflict; a candidate of the walk (opening time plus a multiple of the step, ending by
  closing time, the same-day adjustment not applying) all of whose existing reservations
  touch it in this way is among the slots returned. At creation time, whatever the server's
  date arithmetic: when every stored reservation ends at the requested start or starts at the
  end computed for the request, the answer is not \<open>TIME_SLOT_CONFLICT\<close>.
\<close>

theorem C5_adjacent_slots_do_not_conflict:
  "(timeStringToMinutes (slot_end_time b) = Some candidate
      \<or> timeStringToMinutes (slot_start_time b) = Some (candidate + serviceDuration)
      \<longrightarrow> \<not> overlaps_booking candidate serviceDuration b)
   \<and> (timeStringToMinutes openTime = Some opening \<and> timeStringToMinutes closeTime = Some closing
       \<and> \<not> booking_for_today now appointmentDate
       \<and> candidate = opening + slotInterval * int k \<and> candidate + serviceDuration \<le> closing
       \<and> list_all (\<lambda>b. timeStringToMinutes (slot_end_time b) = Some candidate
                        \<or> timeStringToMinutes (slot_start_time b) = Some (candidate + serviceDuration))
            existingBookings
       \<longrightarrow> \<lparr>slot_start_time = minutesToTimeString candidate,
             slot_end_time = minutesToTimeString (candidate + serviceDuration)\<rparr>
              \<in> set (calculateAvailableSlots now openTime closeTime serviceDuration
                        existingBookings appointmentDate))
   \<and> (cr_salon_id rq = Some salon \<and> cr_service_id rq = Some svc
       \<and> cr_appointment_date rq = Some date \<and> cr_start_time rq = Some startTime
       \<and> single (filter (\<lambda>s. sv_id s = svc) (services db)) = Some service
       \<and> list_all (\<lambda>row. end_time row = startTime
                          \<or> Some (start_time row) = endTimeAfter date startTime (duration service))
            (bookings db)
       \<longrightarrow> \<not> is_slot_conflict (fst (createBooking endTimeAfter db rq)))"
proof (intro conjI impI)
  assume "timeStringToMinutes (slot_end_time b) = Some candidate
      \<or> timeStringToMinutes (slot_start_time b) = Some (candidate + serviceDuration)"
  then show "\<not> overlaps_booking candidate serviceDuration b"
    by (rule adjacent_no_overlap)
next
  assume h: "timeStringToMinutes openTime = Some opening \<and> timeStringToMinutes closeTime = Some closing
       \<and> \<not> booking_for_today now appointmentDate
       \<and> candidate = opening + slotInterval * int k \<and> candidate + serviceDuration \<le> closing
       \<and> list_all (\<lambda>b. timeStringToMinutes (slot_end_time b) = Some candidate
                        \<or> timeStringToMinutes (slot_start_time b) = Some (candidate + serviceDuration))
            existingBookings"
  then have cand: "candidate = opening + slotInterval * int k"
    and adj: "list_all (\<lambda>b. timeStringToMinutes (slot_end_time b) = Some candidate
                        \<or> timeStringToMinutes (slot_start_time b) = Some (candidate + serviceDuration))
            existingBookings"
    and le: "candidate + serviceDuration \<le> closing"
    by blast+
  have free: "\<not> hasConflict (opening + slotInterval * int k) serviceDuration existingBookings"
    using adjacent_no_conflict [OF adj] unfolding cand .
  have fits: "opening + slotInterval * int k + serviceDuration \<le> closing"
    using le unfolding cand .
  have "\<lparr>slot_start_time = minutesToTimeString (opening + slotInterval * int k),
         slot_end_time = minutesToTimeString (opening + slotInterval * int k + serviceDuration)\<rparr>
          \<in> set (slot_walk opening closing serviceDuration existingBookings)"
    using fits free by (rule slot_walk_emits)
  then show "\<lparr>slot_start_time = minutesToTimeString candidate,
             slot_end_time = minutesToTimeString (candidate + serviceDuration)\<rparr>
              \<in> set (calculateAvailableSlots now openTime closeTime serviceDuration
                        existingBookings appointmentDate)"
    using h by (simp add: calculate_not_today)
next
  assume h: "cr_salon_id rq = Some salon \<and> cr_service_id rq = Some svc
       \<and> cr_appointment_date rq = Some date \<and> cr_start_time rq = Some startTime
       \<and> single (filter (\<lambda>s. sv_id s = svc) (services db)) = Some service
       \<and> list_all (\<lambda>row. end_time row = startTime
                          \<or> Some (start_time row) = endTimeAfter date startTime (duration service))
            (bookings db)"
  show "\<not> is_slot_conflict (fst (createBooking endTimeAfter db rq))"
    using h by (intro create_without_conflict [of rq salon svc date startTime db service]) blast+
qed

theorem C5_adjacent_slots_do_not_conflict_witness:
  "\<not> overlaps_booking 825 30 \<lparr>slot_start_time = ''14:15'', slot_end_time = ''14:45''\<rparr>
   \<and> \<lparr>slot_start_time = ''13:45'', slot_end_time = ''14:15''\<rparr>
       \<in> set (calculateAvailableSlots demo_clock ''09:00'' ''18:00'' 30
                 [\<lparr>slot_start_time = ''14:15'', slot_end_time = ''14:45''\<rparr>] None)
   \<and> \<not> is_slot_conflict
         (fst (createBooking demo_end_time
                 (demo_db [demo_booking 1 20 2 None 855 885 ''confirmed''])
                 (demo_create 21 2 None 825)))
   \<and> fst (createBooking demo_end_time (demo_db [demo_booking 1 20 2 None 855 885 ''confirmed''])
            (demo_create 21 2 None 825))
       = Inr (demo_booking 2 21 2 None 825 855 ''confirmed'')"
proof -
  let ?b = "\<lparr>slot_start_time = ''14:15'', slot_end_time = ''14:45''\<rparr>"
  let ?db = "demo_db [demo_booking 1 20 2 None 855 885 ''confirmed'']"
  let ?rq = "demo_create 21 2 None 825"
  let ?svc = "\<lparr>sv_id = 2, sv_salon_id = 1, duration = 30\<rparr>"
  have s: "timeStringToMinutes (slot_start_time ?b) = Some (825 + 30)"
    by code_simp
  have o: "timeStringToMinutes ''09:00'' = Some 540" by code_simp
  have c: "timeStringToMinutes ''18:00'' = Some 1080" by code_simp
  have t1: "minutesToTimeString 825 = ''13:45''" by code_simp
  have t2: "minutesToTimeString (825 + 30) = ''14:15''" by code_simp
  have nt: "\<not> booking_for_today demo_clock None"
    by (simp add: booking_for_today_def)
  have k: "(825::int) = 540 + slotInterval * int 19"
    by (simp add: slotInterval_def)
  have run: "fst (createBooking demo_end_time ?db ?rq)
               = Inr (demo_booking 2 21 2 None 825 855 ''confirmed'')"
    by (simp add: createBooking_def create_conflicts_def family_member_missing_def
          fresh_id_def demo_defs Let_def)
  have rows: "list_all (\<lambda>row. end_time row = 825
                          \<or> Some (start_time row) = demo_end_time ''2025-06-02'' 825 (duration ?svc))
                (bookings ?db)"
    by (simp add: demo_defs)
  have look: "single (filter (\<lambda>s. sv_id s = 2) (services ?db)) = Some ?svc"
    by (simp add: demo_defs)
  note inst = C5_adjacent_slots_do_not_conflict
     [of ?b 825 30 "''09:00''" 540 "''18:00''" 1080 demo_clock None 19 "[?b]"
         ?rq 1 2 "''2025-06-02''" 825 ?db ?svc demo_end_time]
  have a: "\<not> overlaps_booking 825 30 ?b"
    using inst [THEN conjunct1] s by blast
  have hyp2: "timeStringToMinutes ''09:00'' = Some 540 \<and> timeStringToMinutes ''18:00'' = Some 1080
       \<and> \<not> booking_for_today demo_clock None
       \<and> (825::int) = 540 + slotInterval * int 19 \<and> (825::int) + 30 \<le> 1080
       \<and> list_all (\<lambda>b. timeStringToMinutes (slot_end_time b) = Some 825
                        \<or> timeStringToMinutes (slot_start_time b) = Some (825 + 30))
            [?b]"
    using s o c nt k by simp
  have b: "\<lparr>slot_start_time = minutesToTimeString 825,
             slot_end_time = minutesToTimeString (825 + 30)\<rparr>
       \<in> set (calculateAvailableSlots demo_clock ''09:00'' ''18:00'' 30 [?b] None)"
    using inst [THEN conjunct2, THEN conjunct1] hyp2 by (rule mp)
  have hyp3: "cr_salon_id ?rq = Some 1 \<and> cr_service_id ?rq = Some 2
       \<and> cr_appointment_date ?rq = Some ''2025-06-02'' \<and> cr_start_time ?rq = Some 825
       \<and> single (filter (\<lambda>s. sv_id s = 2) (services ?db)) = Some ?svc
       \<and> list_all (\<lambda>row. end_time row = 825
                          \<or> Some (start_time row) = demo_end_time ''2025-06-02'' 825 (duration ?svc))
            (bookings ?db)"
    using rows look by (simp add: demo_create_def)
  have d: "\<not> is_slot_conflict (fst (createBooking demo_end_time ?db ?rq))"
    using inst [THEN conjunct2, THEN conjunct2] hyp3 by (rule mp)
  show ?thesis
    using a b d run unfolding t1 t2 by simp
qed




text \<open>
  Claim C9, as the specification states it: a service duration that is zero or negative is
  rejected as a validation error; no slot is emitted and no reservation is created. Neither
  the calculation nor \<open>createBooking\<close> looks at the sign of the duration. On the example
  salon, the duration 0 gives 37 slots between 09:00 and 18:00, and a reservation for the
  service of duration 0 is created, from 10:00 to 10:00.
\<close>

theorem C9_zero_duration_counterexample:
  "length (calculateAvailableSlots demo_clock ''09:00'' ''18:00'' 0 [] None) = 37
   \<and> fst (createBooking demo_end_time (demo_db []) (demo_create 20 3 None 600))
       = Inr (demo_booking 1 20 3 None 600 600 ''confirmed'')"
proof -
  have slots: "length (calculateAvailableSlots demo_clock ''09:00'' ''18:00'' 0 [] None) = 37"
    by code_simp
  have created: "fst (createBooking demo_end_time (demo_db []) (demo_create 20 3 None 600))
       = Inr (demo_booking 1 20 3 None 600 600 ''confirmed'')"
    by (simp add: createBooking_def create_conflicts_def family_member_missing_def fresh_id_def
        demo_defs Let_def)
  show ?thesis
    using slots created by simp
qed

text \<open>
  Claim C9, amended: a service duration that is zero or negative is not validated; it is
  processed like any other. With such a duration, opening time not after closing time, no
  existing reservation and the same-day adjustment not applying, the calculation emits the
  slot that starts at opening time and ends \<open>duration\<close> later (so at or before its start);
  and a create request that passes the other checks (fields present, service of that salon,
  salon found, an end time computed, no row matched by the conflict query, no unknown family
  member) creates the reservation, with the end computed from the start and that duration.
\<close>

theorem C9_non_positive_duration_is_processed:
  assumes "serviceDuration \<le> 0"
  shows "(timeStringToMinutes openTime = Some opening \<and> timeStringToMinutes closeTime = Some closing
          \<and> opening \<le> closing \<and> \<not> booking_for_today now appointmentDate \<longrightarrow>
            \<lparr>slot_start_time = minutesToTimeString opening,
             slot_end_time = minutesToTimeString (opening + serviceDuration)\<rparr>
              \<in> set (calculateAvailableSlots now openTime closeTime serviceDuration []
                        appointmentDate))
         \<and> (cr_salon_id rq = Some salon \<and> cr_service_id rq = Some svc
             \<and> cr_appointment_date rq = Some date \<and> date \<noteq> []
             \<and> cr_start_time rq = Some startTime \<and> \<not> family_member_missing db rq
             \<and> single (filter (\<lambda>s. sv_id s = svc) (services db)) = Some service
             \<and> sv_salon_id service = salon \<and> duration service = serviceDuration
             \<and> single (filter (\<lambda>s. sl_id s = salon) (salons db)) = Some sal
             \<and> endTimeAfter date startTime serviceDuration = Some endTime
             \<and> create_conflicts db salon date startTime endTime = []
             \<longrightarrow> (\<exists>row. createBooking endTimeAfter db rq
                           = (Inr row, db\<lparr>bookings := bookings db @ [row]\<rparr>)
                        \<and> start_time row = startTime
                        \<and> end_time row = endTime))"
proof (intro conjI impI)
  assume h: "timeStringToMinutes openTime = Some opening \<and> timeStringToMinutes closeTime = Some closing
          \<and> opening \<le> closing \<and> \<not> booking_for_today now appointmentDate"
  have fits: "opening + slotInterval * int 0 + serviceDuration \<le> closing"
    using h assms by simp
  have free: "\<not> hasConflict (opening + slotInterval * int 0) serviceDuration []"
    by (simp add: hasConflict_def)
  have "\<lparr>slot_start_time = minutesToTimeString (opening + slotInterval * int 0),
         slot_end_time = minutesToTimeString (opening + slotInterval * int 0 + serviceDuration)\<rparr>
          \<in> set (slot_walk opening closing serviceDuration [])"
    using fits free by (rule slot_walk_emits)
  then show "\<lparr>slot_start_time = minutesToTimeString opening,
             slot_end_time = minutesToTimeString (opening + serviceDuration)\<rparr>
              \<in> set (calculateAvailableSlots now openTime closeTime serviceDuration []
                        appointmentDate)"
    using h by (simp add: calculate_not_today)
next
  assume h: "cr_salon_id rq = Some salon \<and> cr_service_id rq = Some svc
             \<and> cr_appointment_date rq = Some date \<and> date \<noteq> []
             \<and> cr_start_time rq = Some startTime \<and> \<not> family_member_missing db rq
             \<and> single (filter (\<lambda>s. sv_id s = svc) (services db)) = Some service
             \<and> sv_salon_id service = salon \<and> duration service = serviceDuration
             \<and> single (filter (\<lambda>s. sl_id s = salon) (salons db)) = Some sal
             \<and> endTimeAfter date startTime serviceDuration = Some endTime
             \<and> create_conflicts db salon date startTime endTime = []"
  then show "\<exists>row. createBooking endTimeAfter db rq
                           = (Inr row, db\<lparr>bookings := bookings db @ [row]\<rparr>)
                        \<and> start_time row = startTime
                        \<and> end_time row = endTime"
    using create_accepts [of rq salon svc date startTime db service sal endTimeAfter endTime]
    by simp
qed

theorem C9_non_positive_duration_is_processed_witness:
  "(- 30 :: int) \<le> 0
   \<and> \<lparr>slot_start_time = ''09:00'', slot_end_time = ''08:30''\<rparr>
       \<in> set (calculateAvailableSlots demo_clock ''09:00'' ''18:00'' (- 30) [] None)"
proof -
  have neg: "(- 30 :: int) \<le> 0" by simp
  have o: "timeStringToMinutes ''09:00'' = Some 540" by code_simp
  have c: "timeStringToMinutes ''18:00'' = Some 1080" by code_simp
  have t1: "minutesToTimeString 540 = ''09:00''" by code_simp
  have t2: "minutesToTimeString (540 + - 30) = ''08:30''" by code_simp
  have hyp: "timeStringToMinutes ''09:00'' = Some 540 \<and> timeStringToMinutes ''18:00'' = Some 1080
          \<and> (540::int) \<le> 1080 \<and> \<not> booking_for_today demo_clock None"
    using o c by (simp add: booking_for_today_def)
  have "\<lparr>slot_start_time = minutesToTimeString 540,
         slot_end_time = minutesToTimeString (540 + - 30)\<rparr>
       \<in> set (calculateAvailableSlots demo_clock ''09:00'' ''18:00'' (- 30) [] None)"
    using C9_non_positive_duration_is_processed
            [OF neg, of "''09:00''" 540 "''18:00''" 1080 demo_clock None, THEN conjunct1] hyp
    by (rule mp)
  then show ?thesis
    unfolding t1 t2 using neg by simp
qed

section \<open>Properties of the rating projector\<close>

text \<open>
  The binary64 quotient of a positive sum and a count is within a relative error of
  \<open>2^-53\<close> of the exact quotient; \<open>toFixed(2)\<close> of it is therefore a hundredth nearest to the
  exact quotient, as long as \<open>200 * sum\<close> stays below \<open>2^53\<close>.
\<close>

lemma round_half_even_close: "\<bar>of_int (round_half_even x) - x\<bar> \<le> 1 / 2"
proof -
  have lo: "of_int \<lfloor>x\<rfloor> \<le> x" and hi: "x < of_int \<lfloor>x\<rfloor> + 1"
    by linarith+
  show ?thesis
    using lo hi unfolding round_half_even_def Let_def
    by (auto simp: abs_le_iff)
qed

lemma norm_shift_reaches: "0 < s \<Longrightarrow> n * 2 ^ 52 \<le> s * 2 ^ norm_shift s n k"
proof (induction s n k rule: norm_shift.induct)
  case (1 s n k)
  show ?case
  proof (cases "n * 2 ^ 52 \<le> s * 2 ^ k")
    case True
    then show ?thesis
      by (subst norm_shift.simps) simp
  next
    case False
    then have "norm_shift s n k = norm_shift s n (Suc k)"
      using "1.prems" by (subst norm_shift.simps) simp
    then show ?thesis
      using "1.IH" "1.prems" False by simp
  qed
qed

lemma fp_div_close:
  assumes s: "0 < s" and n: "0 < n"
  shows "\<bar>fp_div s n - of_int s / of_nat n\<bar> \<le> (of_int s / of_nat n) / 2 ^ 53"
proof -
  define k where "k = norm_shift s (int n) 0"
  define m where "m = round_half_even (of_int (s * 2 ^ k) / of_nat n)"
  have val: "fp_div s n = of_int m / 2 ^ k"
    using s n by (simp add: fp_div_def Let_def k_def m_def)
  have reach: "int n * 2 ^ 52 \<le> s * 2 ^ k"
    unfolding k_def using s by (rule norm_shift_reaches)
  then have "(of_int (int n * 2 ^ 52) :: rat) \<le> of_int (s * 2 ^ k)"
    by (simp only: of_int_le_iff)
  then have reach': "(of_nat n :: rat) * 2 ^ 52 \<le> of_int s * 2 ^ k"
    by simp
  have npos: "(0::rat) < of_nat n" using n by simp
  have ulp: "(1::rat) / 2 ^ k \<le> (of_int s / of_nat n) / 2 ^ 52"
    using reach' npos by (simp add: field_simps)
  have close: "\<bar>of_int m - of_int (s * 2 ^ k) / of_nat n\<bar> \<le> (1::rat) / 2"
    unfolding m_def by (rule round_half_even_close)
  have "\<bar>of_int m - of_int (s * 2 ^ k) / of_nat n\<bar> / 2 ^ k \<le> (1 / 2) / (2::rat) ^ k"
    by (rule divide_right_mono [OF close]) simp
  then have "\<bar>of_int m - of_int s * 2 ^ k / of_nat n\<bar> / 2 ^ k \<le> (1 / 2) / (2::rat) ^ k"
    by simp
  moreover have "\<bar>of_int m - of_int s * 2 ^ k / of_nat n\<bar> / 2 ^ k
                  = \<bar>of_int m / 2 ^ k - of_int s / (of_nat n :: rat)\<bar>"
  proof -
    have "(of_int m - of_int s * 2 ^ k / of_nat n) / 2 ^ k
            = of_int m / 2 ^ k - of_int s / (of_nat n :: rat)"
      by (simp add: field_simps)
    then have "\<bar>(of_int m - of_int s * 2 ^ k / of_nat n) / 2 ^ k\<bar>
            = \<bar>of_int m / 2 ^ k - of_int s / (of_nat n :: rat)\<bar>"
      by simp
    then show ?thesis by (simp add: abs_divide del: of_int_mult)
  qed
  ultimately have err: "\<bar>of_int m / 2 ^ k - of_int s / (of_nat n :: rat)\<bar> \<le> (1 / 2) / 2 ^ k"
    by simp
  have "(1 / 2) / (2::rat) ^ k = (1 / 2 ^ k) / 2" by simp
  also have "\<dots> \<le> ((of_int s / of_nat n) / 2 ^ 52) / 2"
    using ulp by (simp add: divide_right_mono)
  also have "\<dots> = (of_int s / of_nat n) / 2 ^ 53" by simp
  finally show ?thesis
    using err val by simp
qed

lemma toFixed2_nonneg: "0 \<le> x \<Longrightarrow> toFixed2 x = of_int \<lfloor>100 * x + 1 / 2\<rfloor> / 100"
  by (simp add: toFixed2_def)

lemma average_nearest_hundredth:
  assumes s: "0 \<le> s" and n: "0 < n" and small: "200 * s < 2 ^ 53"
  shows "\<exists>h::int. toFixed2 (fp_div s n) = of_int h / 100
            \<and> \<bar>of_int h / 100 - of_int s / of_nat n\<bar> \<le> (1 / 200 :: rat)"
proof (cases "s = 0")
  case True
  have half: "\<lfloor>(1::rat) / 2\<rfloor> = 0"
    by (rule floor_unique) simp_all
  have "toFixed2 (fp_div 0 n) = of_int 0 / 100"
    by (simp add: fp_div_def toFixed2_def half)
  then show ?thesis
    using True by (intro exI [of _ 0]) simp
next
  case False
  then have spos: "0 < s" using s by simp
  define d where "d = fp_div s n"
  define h where "h = \<lfloor>100 * d + 1 / 2\<rfloor>"
  define D where "D = 200 * of_nat n * d"
  have npos: "(0::rat) < of_nat n" using n by simp
  have close: "\<bar>d - of_int s / of_nat n\<bar> \<le> (of_int s / of_nat n) / 2 ^ 53"
    unfolding d_def using spos n by (rule fp_div_close)
  have "\<bar>d - of_int s / of_nat n\<bar> * (200 * of_nat n)
          \<le> ((of_int s / of_nat n) / 2 ^ 53) * (200 * of_nat n)"
    using close npos by (intro mult_right_mono) simp_all
  moreover have "\<bar>d - of_int s / of_nat n\<bar> * (200 * of_nat n) = \<bar>D - 200 * of_int s\<bar>"
  proof -
    have "(d - of_int s / of_nat n) * (200 * of_nat n) = D - 200 * of_int s"
      using npos by (simp add: D_def field_simps)
    moreover have "\<bar>(d - of_int s / of_nat n) * (200 * of_nat n)\<bar>
                     = \<bar>d - of_int s / of_nat n\<bar> * (200 * of_nat n)"
      using npos by (simp add: abs_mult)
    ultimately show ?thesis by simp
  qed
  moreover have "((of_int s / of_nat n) / 2 ^ 53) * (200 * of_nat n) = (200 * of_int s) / (2 ^ 53 :: rat)"
    using npos by simp
  moreover have "(200 * of_int s) / (2 ^ 53 :: rat) < 1"
  proof -
    have "(of_int (200 * s) :: rat) < of_int (2 ^ 53)"
      using small by (simp only: of_int_less_iff)
    then show ?thesis by simp
  qed
  ultimately have Dclose: "\<bar>D - 200 * of_int s\<bar> < 1"
    by linarith
  have dnonneg: "0 \<le> d"
  proof -
    have "(of_int s / of_nat n) / 2 ^ 53 \<le> (of_int s / of_nat n :: rat)"
      using spos npos by (simp add: field_simps)
    then show ?thesis using close by linarith
  qed
  have fixed: "toFixed2 (fp_div s n) = of_int h / 100"
    using dnonneg by (simp add: toFixed2_nonneg d_def h_def)
  have fl1: "of_int h \<le> 100 * d + 1 / 2" and fl2: "100 * d + 1 / 2 < of_int h + 1"
    unfolding h_def by linarith+
  have "of_int h * (2 * of_nat n) \<le> (100 * d + 1 / 2) * (2 * of_nat n)"
    using fl1 npos by (intro mult_right_mono) simp_all
  then have up1: "2 * of_nat n * of_int h \<le> D + of_nat n"
    by (simp add: D_def algebra_simps)
  have "(100 * d + 1 / 2) * (2 * of_nat n) < (of_int h + 1) * (2 * of_nat n)"
    using fl2 npos by (intro mult_strict_right_mono) simp_all
  then have up2: "D + of_nat n < 2 * of_nat n * of_int h + 2 * of_nat n"
    by (simp add: D_def algebra_simps)
  have "(of_int (2 * int n * h) :: rat) < of_int (200 * s + int n + 1)"
    using up1 Dclose by simp
  then have "2 * int n * h < 200 * s + int n + 1"
    by (simp only: of_int_less_iff)
  then have i1: "2 * int n * h \<le> 200 * s + int n"
    by linarith
  have "(of_int (200 * s + int n) :: rat) < of_int (2 * int n * h + 2 * int n + 1)"
    using up2 Dclose by simp
  then have "200 * s + int n < 2 * int n * h + 2 * int n + 1"
    by (simp only: of_int_less_iff)
  then have i2: "200 * s + int n \<le> 2 * int n * h + 2 * int n"
    by linarith
  have r1: "(of_int (2 * int n * h) :: rat) \<le> of_int (200 * s + int n)"
    using i1 by (simp only: of_int_le_iff)
  have r2: "(of_int (200 * s + int n) :: rat) \<le> of_int (2 * int n * h + 2 * int n)"
    using i2 by (simp only: of_int_le_iff)
  have "(of_int h / 100 - of_int s / of_nat n) * (200 * of_nat n)
          = 2 * of_nat n * of_int h - 200 * (of_int s :: rat)"
    using npos by (simp add: field_simps)
  moreover have "\<bar>2 * of_nat n * of_int h - 200 * (of_int s :: rat)\<bar> \<le> of_nat n"
    using r1 r2 by simp
  ultimately have "\<bar>(of_int h / 100 - of_int s / of_nat n) * (200 * of_nat n)\<bar> \<le> (of_nat n :: rat)"
    by simp
  then have "\<bar>of_int h / 100 - of_int s / of_nat n\<bar> * (200 * of_nat n) \<le> (of_nat n :: rat)"
    using npos by (simp add: abs_mult)
  then have "\<bar>of_int h / 100 - of_int s / of_nat n\<bar> \<le> (of_nat n :: rat) / (200 * of_nat n)"
    using npos by (simp add: pos_le_divide_eq)
  then have "\<bar>of_int h / 100 - of_int s / of_nat n\<bar> \<le> 1 / (200 :: rat)"
    using npos by simp
  then show ?thesis
    using fixed by blast
qed

lemma foldl_add_sum_list: "foldl (\<lambda>acc r. acc + r) a rs = a + sum_list (rs :: int list)"
  by (induction rs arbitrary: a) simp_all

lemma ratings_sum_bounds:
  "list_all (\<lambda>r. 1 \<le> r \<and> r \<le> 5) rs \<Longrightarrow> 0 \<le> sum_list rs \<and> sum_list rs \<le> 5 * int (length rs)"
  by (induction rs) auto

lemma rating_summary_empty: "rating_summary [] = (0, 0)"
proof -
  have "\<lfloor>(1::rat) / 2\<rfloor> = 0"
    by (rule floor_unique) simp_all
  then show ?thesis
    by (simp add: rating_summary_def toFixed2_def)
qed

lemma rating_summary_count: "snd (rating_summary ratings) = length ratings"
  by (simp add: rating_summary_def Let_def)

lemma rating_summary_rounds:
  assumes ne: "ratings \<noteq> []"
    and range: "list_all (\<lambda>r. 1 \<le> r \<and> r \<le> 5) ratings"
    and count: "length ratings < 2 ^ 43"
  shows "spec_round2 (of_int (sum_list ratings) / of_nat (length ratings))
           (fst (rating_summary ratings))"
proof -
  have sum: "0 \<le> sum_list ratings" and upper: "sum_list ratings \<le> 5 * int (length ratings)"
    using ratings_sum_bounds [OF range] by simp_all
  have "int (length ratings) < 2 ^ 43"
    using count by (metis of_nat_less_iff of_nat_numeral of_nat_power)
  then have "200 * sum_list ratings < 1000 * 2 ^ 43"
    using upper by linarith
  also have "\<dots> < (2::int) ^ 53"
    by simp
  finally have small: "200 * sum_list ratings < 2 ^ 53" .
  have pos: "0 < length ratings"
    using ne by simp
  obtain h :: int where
    val: "toFixed2 (fp_div (sum_list ratings) (length ratings)) = of_int h / 100"
    and near: "\<bar>of_int h / 100 - of_int (sum_list ratings) / of_nat (length ratings)\<bar>
                 \<le> (1 / 200 :: rat)"
    using average_nearest_hundredth [OF sum pos small] by blast
  have avg: "fst (rating_summary ratings) = of_int h / 100"
    using ne val by (simp add: rating_summary_def Let_def foldl_add_sum_list)
  have "100 * (of_int h / 100 :: rat) = of_int h"
    by simp
  then have "of_int \<lfloor>100 * (of_int h / 100 :: rat)\<rfloor> = 100 * (of_int h / 100 :: rat)"
    by (simp only: floor_of_int)
  then show ?thesis
    unfolding spec_round2_def avg using near by blast
qed

lemma spec_visible_ratings_filter:
  "spec_visible_ratings rs business
     = map rating (filter (\<lambda>r. rv_salon_id r = business \<and> is_visible r) rs)"
  by (induction rs) simp_all

lemma spec_visible_ratings_query:
  "spec_visible_ratings (reviews db) business = visible_ratings db business"
  by (simp add: spec_visible_ratings_filter visible_ratings_def)

lemma updateSalonRating_reviews: "reviews (updateSalonRating faults db salonId) = reviews db"
  by (simp add: updateSalonRating_def Let_def)

lemma updateSalonRating_faulty:
  "reviews_read_fails faults \<or> salon_write_fails faults \<Longrightarrow>
   updateSalonRating faults db salonId = db"
  by (auto simp: updateSalonRating_def Let_def)

lemma updateSalonRating_stored:
  assumes ok: "\<not> reviews_read_fails faults" "\<not> salon_write_fails faults"
    and mem: "s \<in> set (salons (updateSalonRating faults db salonId))"
    and sid: "sl_id s = salonId"
  shows "(rating_average s, rating_count s) = rating_summary (visible_ratings db salonId)"
proof -
  let ?summary = "rating_summary (visible_ratings db salonId)"
  let ?stamp = "\<lambda>x. x\<lparr>rating_average := fst ?summary, rating_count := snd ?summary\<rparr>"
  have eq: "salons (updateSalonRating faults db salonId)
              = map (\<lambda>x. if sl_id x = salonId then ?stamp x else x) (salons db)"
    using ok by (simp add: updateSalonRating_def Let_def)
  from mem have "s \<in> (\<lambda>x. if sl_id x = salonId then ?stamp x else x) ` set (salons db)"
    unfolding eq set_map .
  then obtain x where
    sx: "s = (if sl_id x = salonId then ?stamp x else x)"
    by (rule imageE)
  have "sl_id x = salonId"
    using sx sid by (cases "sl_id x = salonId") simp_all
  then have "s = ?stamp x"
    using sx by simp
  then have "rating_average s = fst ?summary" and "rating_count s = snd ?summary"
    by simp_all
  then show ?thesis
    by simp
qed

lemma recompute_stored:
  assumes "\<not> reviews_read_fails faults" and "\<not> salon_write_fails faults"
    and "db' = updateSalonRating faults db0 business"
    and "s \<in> set (salons db')" and "sl_id s = business"
  shows "(rating_average s, rating_count s)
           = rating_summary (spec_visible_ratings (reviews db') business)"
proof -
  have "(rating_average s, rating_count s) = rating_summary (visible_ratings db0 business)"
    using assms by (intro updateSalonRating_stored [of faults s db0 business]) simp_all
  moreover have "spec_visible_ratings (reviews db') business = visible_ratings db0 business"
    using assms(3)
    by (simp add: spec_visible_ratings_filter visible_ratings_def updateSalonRating_reviews)
  ultimately show ?thesis
    by simp
qed

lemma createReview_result:
  assumes "createReview inFuture faults db rq = (Inr created, db')"
  shows "db' = updateSalonRating faults (db\<lparr>reviews := reviews db @ [created]\<rparr>)
                 (rv_salon_id created)"
  using assms unfolding createReview_def Let_def
  by (auto split: option.splits if_splits)

lemma updateReview_result:
  assumes "updateReview faults db rq = (Inr updated, db')"
  shows "\<exists>rows. db' = updateSalonRating faults (db\<lparr>reviews := rows\<rparr>) (rv_salon_id updated)"
  using assms unfolding updateReview_def Let_def
  by (auto split: option.splits if_splits)

lemma deleteReview_result:
  assumes "deleteReview faults db rq = (Inr u, db')"
    and "single (filter (\<lambda>v. rv_id v = rd_reviewId rq \<and> rv_client_id v = rd_user rq) (reviews db))
           = Some existing"
  shows "\<exists>rows. db' = updateSalonRating faults (db\<lparr>reviews := rows\<rparr>) (rv_salon_id existing)"
  using assms unfolding deleteReview_def Let_def
  by (auto split: option.splits if_splits)

lemma review_write_result:
  assumes "createReview inFuture faults db cq = (Inr created, db') \<and> business = rv_salon_id created
           \<or> updateReview faults db uq = (Inr updated, db') \<and> business = rv_salon_id updated
           \<or> deleteReview faults db dq = (Inr u, db')
               \<and> single (filter (\<lambda>v. rv_id v = rd_reviewId dq \<and> rv_client_id v = rd_user dq)
                           (reviews db)) = Some existing
               \<and> business = rv_salon_id existing"
  shows "\<exists>rows. db' = updateSalonRating faults (db\<lparr>reviews := rows\<rparr>) business"
  using assms createReview_result updateReview_result deleteReview_result
  by blast

text \<open>
  Claim C10, as the specification states it: after every review create, update or
  soft-delete, the stored rating summary of the business equals the full recompute over its
  visible reviews. \<open>_updateSalonRating\<close> gives up silently when its read of the reviews or
  its write of the salon fails, and the handler still answers success. On the example store
  (salon 1 holds the summary 5.00 / 1 of its one visible review), with the read of the
  reviews failing, client 20's review rated 4 is created and answered with success; the
  visible ratings of salon 1 are then 5 and 4, whose summary is 4.50 / 2, and the stored
  summary is still 5.00 / 1.
\<close>

theorem C10_stale_summary_counterexample:
  "fst (createReview not_in_future read_fault
          (demo_review_db [demo_salon 1 5 1, demo_salon 2 1 1] demo_reviews) (demo_review 20 4))
     = Inr (demo_review_row 4 20 1 4 True)
   \<and> salons (snd (createReview not_in_future read_fault
          (demo_review_db [demo_salon 1 5 1, demo_salon 2 1 1] demo_reviews) (demo_review 20 4)))
     = [demo_salon 1 5 1, demo_salon 2 1 1]
   \<and> spec_visible_ratings (reviews (snd (createReview not_in_future read_fault
          (demo_review_db [demo_salon 1 5 1, demo_salon 2 1 1] demo_reviews) (demo_review 20 4)))) 1
     = [5, 4]
   \<and> rating_summary [5, 4] = (450 / 100, 2)
   \<and> \<not> ((rating_average (demo_salon 1 5 1), rating_count (demo_salon 1 5 1))
          = rating_summary [5, 4])"
proof -
  let ?run = "createReview not_in_future read_fault
          (demo_review_db [demo_salon 1 5 1, demo_salon 2 1 1] demo_reviews) (demo_review 20 4)"
  have summary: "rating_summary [5, 4] = (450 / 100, 2)"
    by code_simp
  have run: "?run = (Inr (demo_review_row 4 20 1 4 True),
                     demo_review_db [demo_salon 1 5 1, demo_salon 2 1 1]
                       (demo_reviews @ [demo_review_row 4 20 1 4 True]))"
    by (simp add: createReview_def updateSalonRating_def fresh_id_def demo_defs Let_def)
  have answered: "fst ?run = Inr (demo_review_row 4 20 1 4 True)"
    unfolding run by simp
  have stored: "salons (snd ?run) = [demo_salon 1 5 1, demo_salon 2 1 1]"
    unfolding run by (simp add: demo_review_db_def)
  have visible: "spec_visible_ratings (reviews (snd ?run)) 1 = [5, 4]"
    unfolding run by (simp add: demo_defs)
  have stale: "\<not> ((rating_average (demo_salon 1 5 1), rating_count (demo_salon 1 5 1))
                    = rating_summary [5, 4])"
    by (simp add: summary demo_salon_def)
  show ?thesis
    by (intro conjI) (rule answered stored visible summary stale)+
qed

text \<open>
  Claim C10, amended: after a review create, update or soft-delete that succeeds, if the
  projector's read of the reviews and its write of the salon both succeed, the summary stored
  on the business is the full recompute over the visible reviews of that business in the
  resulting store: the count is their number, the average is their sum divided by their
  number, rounded to two decimal places (for ratings between 1 and 5 and fewer than \<open>2^43\<close>
  reviews, where the sum and the quotient stay within the exact range of the arithmetic),
  and both are 0 when no review is visible. If that read or that write fails, the request
  still succeeds and the stored summaries are left as they were. Five visible reviews rated
  5, 4, 3, 5, 2 give average 3.80 and count 5.
\<close>

theorem C10_rating_summary_follows_review_writes:
  assumes "createReview inFuture faults db cq = (Inr created, db') \<and> business = rv_salon_id created
           \<or> updateReview faults db uq = (Inr updated, db') \<and> business = rv_salon_id updated
           \<or> deleteReview faults db dq = (Inr u, db')
               \<and> single (filter (\<lambda>v. rv_id v = rd_reviewId dq \<and> rv_client_id v = rd_user dq)
                           (reviews db)) = Some existing
               \<and> business = rv_salon_id existing"
  shows "(\<not> reviews_read_fails faults \<and> \<not> salon_write_fails faults
          \<and> s \<in> set (salons db') \<and> sl_id s = business
          \<longrightarrow> (rating_average s, rating_count s)
                = rating_summary (spec_visible_ratings (reviews db') business))
         \<and> (reviews_read_fails faults \<or> salon_write_fails faults \<longrightarrow> salons db' = salons db)
         \<and> snd (rating_summary ratings) = length ratings
         \<and> rating_summary [] = (0, 0)
         \<and> (ratings \<noteq> [] \<and> list_all (\<lambda>r. 1 \<le> r \<and> r \<le> 5) ratings \<and> length ratings < 2 ^ 43
            \<longrightarrow> spec_round2 (of_int (sum_list ratings) / of_nat (length ratings))
                  (fst (rating_summary ratings)))
         \<and> rating_summary [5, 4, 3, 5, 2] = (380 / 100, 5)"
proof -
  from review_write_result [OF assms] obtain rows where
    db': "db' = updateSalonRating faults (db\<lparr>reviews := rows\<rparr>) business"
    by blast
  have recomputed: "(rating_average s, rating_count s)
                      = rating_summary (spec_visible_ratings (reviews db') business)"
    if "\<not> reviews_read_fails faults \<and> \<not> salon_write_fails faults
          \<and> s \<in> set (salons db') \<and> sl_id s = business"
    using that db' by (intro recompute_stored [of faults db' "db\<lparr>reviews := rows\<rparr>"]) simp_all
  have untouched: "salons db' = salons db"
    if "reviews_read_fails faults \<or> salon_write_fails faults"
    using that db' by (simp add: updateSalonRating_faulty)
  have rounds: "spec_round2 (of_int (sum_list ratings) / of_nat (length ratings))
                  (fst (rating_summary ratings))"
    if "ratings \<noteq> [] \<and> list_all (\<lambda>r. 1 \<le> r \<and> r \<le> 5) ratings \<and> length ratings < 2 ^ 43"
    using that by (intro rating_summary_rounds) simp_all
  have example: "rating_summary [5, 4, 3, 5, 2] = (380 / 100, 5)"
    by code_simp
  show ?thesis
    using recomputed untouched rounds example rating_summary_count [of ratings]
      rating_summary_empty
    by (intro conjI impI) blast+
qed

theorem C10_rating_summary_follows_review_writes_witness:
  "createReview not_in_future no_faults
       (demo_review_db [demo_salon 1 5 1, demo_salon 2 1 1] demo_reviews) (demo_review 20 4)
     = (Inr (demo_review_row 4 20 1 4 True),
        demo_review_db [demo_salon 1 (450 / 100) 2, demo_salon 2 1 1]
          (demo_reviews @ [demo_review_row 4 20 1 4 True]))
   \<and> (rating_average (demo_salon 1 (450 / 100) 2), rating_count (demo_salon 1 (450 / 100) 2))
       = rating_summary
           (spec_visible_ratings (demo_reviews @ [demo_review_row 4 20 1 4 True]) 1)
   \<and> updateReview no_faults
       (demo_review_db [demo_salon 1 5 1, demo_salon 2 1 1] demo_reviews)
       (demo_review_update 21 1 2)
     = (Inr (demo_review_row 1 21 1 2 True),
        demo_review_db [demo_salon 1 2 1, demo_salon 2 1 1]
          [demo_review_row 1 21 1 2 True, demo_review_row 2 22 1 1 False,
           demo_review_row 3 23 2 1 True])
   \<and> (rating_average (demo_salon 1 2 1), rating_count (demo_salon 1 2 1))
       = rating_summary
           (spec_visible_ratings
              [demo_review_row 1 21 1 2 True, demo_review_row 2 22 1 1 False,
               demo_review_row 3 23 2 1 True] 1)
   \<and> deleteReview no_faults
       (demo_review_db [demo_salon 1 5 1, demo_salon 2 1 1] demo_reviews)
       (demo_review_delete 21 1)
     = (Inr (),
        demo_review_db [demo_salon 1 0 0, demo_salon 2 1 1]
          [demo_review_row 1 21 1 5 False, demo_review_row 2 22 1 1 False,
           demo_review_row 3 23 2 1 True])
   \<and> (rating_average (demo_salon 1 0 0), rating_count (demo_salon 1 0 0))
       = rating_summary
           (spec_visible_ratings
              [demo_review_row 1 21 1 5 False, demo_review_row 2 22 1 1 False,
               demo_review_row 3 23 2 1 True] 1)
   \<and> salons (snd (createReview not_in_future read_fault
          (demo_review_db [demo_salon 1 5 1, demo_salon 2 1 1] demo_reviews) (demo_review 20 4)))
       = salons (demo_review_db [demo_salon 1 5 1, demo_salon 2 1 1] demo_reviews)
   \<and> spec_round2 (19 / 5) (fst (rating_summary [5, 4, 3, 5, 2]))"
proof -
  let ?db = "demo_review_db [demo_salon 1 5 1, demo_salon 2 1 1] demo_reviews"
  let ?new = "demo_review_row 4 20 1 4 True"
  let ?db1 = "demo_review_db [demo_salon 1 (450 / 100) 2, demo_salon 2 1 1] (demo_reviews @ [?new])"
  let ?rows2 = "[demo_review_row 1 21 1 2 True, demo_review_row 2 22 1 1 False,
                 demo_review_row 3 23 2 1 True]"
  let ?db2 = "demo_review_db [demo_salon 1 2 1, demo_salon 2 1 1] ?rows2"
  let ?rows3 = "[demo_review_row 1 21 1 5 False, demo_review_row 2 22 1 1 False,
                 demo_review_row 3 23 2 1 True]"
  let ?db3 = "demo_review_db [demo_salon 1 0 0, demo_salon 2 1 1] ?rows3"
  let ?five = "[5, 4, 3, 5, 2] :: int list"
  have s54: "rating_summary [5, 4] = (450 / 100, 2)" by code_simp
  have s2: "rating_summary [2] = (2, 1)" by code_simp
  have s0: "rating_summary [] = (0, 0)" by (rule rating_summary_empty)
  have created: "createReview not_in_future no_faults ?db (demo_review 20 4) = (Inr ?new, ?db1)"
    using s54
    by (simp add: createReview_def updateSalonRating_def visible_ratings_def fresh_id_def
          demo_defs Let_def)
  have updated: "updateReview no_faults ?db (demo_review_update 21 1 2)
                   = (Inr (demo_review_row 1 21 1 2 True), ?db2)"
    using s2
    by (simp add: updateReview_def updateSalonRating_def visible_ratings_def demo_defs Let_def)
  have deleted: "deleteReview no_faults ?db (demo_review_delete 21 1) = (Inr (), ?db3)"
    using s0
    by (simp add: deleteReview_def updateSalonRating_def visible_ratings_def demo_defs Let_def)
  have found: "single (filter (\<lambda>v. rv_id v = rd_reviewId (demo_review_delete 21 1)
                                    \<and> rv_client_id v = rd_user (demo_review_delete 21 1))
                         (reviews ?db)) = Some (demo_review_row 1 21 1 5 True)"
    by (simp add: demo_defs)
  have ok: "\<not> reviews_read_fails no_faults \<and> \<not> salon_write_fails no_faults"
    by (simp add: no_faults_def)
  have w1: "createReview not_in_future no_faults ?db (demo_review 20 4) = (Inr ?new, ?db1)
              \<and> 1 = rv_salon_id ?new
            \<or> updateReview no_faults ?db (demo_review_update 21 1 2)
                 = (Inr (demo_review_row 1 21 1 2 True), ?db1)
              \<and> 1 = rv_salon_id (demo_review_row 1 21 1 2 True)
            \<or> deleteReview no_faults ?db (demo_review_delete 21 1) = (Inr (), ?db1)
              \<and> single (filter (\<lambda>v. rv_id v = rd_reviewId (demo_review_delete 21 1)
                                      \<and> rv_client_id v = rd_user (demo_review_delete 21 1))
                           (reviews ?db)) = Some (demo_review_row 1 21 1 5 True)
              \<and> 1 = rv_salon_id (demo_review_row 1 21 1 5 True)"
    using created by (simp add: demo_review_row_def)
  have w2: "createReview not_in_future no_faults ?db (demo_review 20 4) = (Inr ?new, ?db2)
              \<and> 1 = rv_salon_id ?new
            \<or> updateReview no_faults ?db (demo_review_update 21 1 2)
                 = (Inr (demo_review_row 1 21 1 2 True), ?db2)
              \<and> 1 = rv_salon_id (demo_review_row 1 21 1 2 True)
            \<or> deleteReview no_faults ?db (demo_review_delete 21 1) = (Inr (), ?db2)
              \<and> single (filter (\<lambda>v. rv_id v = rd_reviewId (demo_review_delete 21 1)
                                      \<and> rv_client_id v = rd_user (demo_review_delete 21 1))
                           (reviews ?db)) = Some (demo_review_row 1 21 1 5 True)
              \<and> 1 = rv_salon_id (demo_review_row 1 21 1 5 True)"
    using updated by (simp add: demo_review_row_def)
  have w3: "createReview not_in_future no_faults ?db (demo_review 20 4) = (Inr ?new, ?db3)
              \<and> 1 = rv_salon_id ?new
            \<or> updateReview no_faults ?db (demo_review_update 21 1 2)
                 = (Inr (demo_review_row 1 21 1 2 True), ?db3)
              \<and> 1 = rv_salon_id (demo_review_row 1 21 1 2 True)
            \<or> deleteReview no_faults ?db (demo_review_delete 21 1) = (Inr (), ?db3)
              \<and> single (filter (\<lambda>v. rv_id v = rd_reviewId (demo_review_delete 21 1)
                                      \<and> rv_client_id v = rd_user (demo_review_delete 21 1))
                           (reviews ?db)) = Some (demo_review_row 1 21 1 5 True)
              \<and> 1 = rv_salon_id (demo_review_row 1 21 1 5 True)"
    using deleted found by (simp add: demo_review_row_def)
  have m1: "\<not> reviews_read_fails no_faults \<and> \<not> salon_write_fails no_faults
            \<and> demo_salon 1 (450 / 100) 2 \<in> set (salons ?db1)
            \<and> sl_id (demo_salon 1 (450 / 100) 2) = 1"
    using ok by (simp add: demo_review_db_def demo_salon_def)
  have m2: "\<not> reviews_read_fails no_faults \<and> \<not> salon_write_fails no_faults
            \<and> demo_salon 1 2 1 \<in> set (salons ?db2) \<and> sl_id (demo_salon 1 2 1) = 1"
    using ok by (simp add: demo_review_db_def demo_salon_def)
  have m3: "\<not> reviews_read_fails no_faults \<and> \<not> salon_write_fails no_faults
            \<and> demo_salon 1 0 0 \<in> set (salons ?db3) \<and> sl_id (demo_salon 1 0 0) = 1"
    using ok by (simp add: demo_review_db_def demo_salon_def)
  have r1: "(rating_average (demo_salon 1 (450 / 100) 2), rating_count (demo_salon 1 (450 / 100) 2))
              = rating_summary (spec_visible_ratings (reviews ?db1) 1)"
    using C10_rating_summary_follows_review_writes
            [OF w1, where s = "demo_salon 1 (450 / 100) 2", THEN conjunct1] m1
    by (rule mp)
  have r2: "(rating_average (demo_salon 1 2 1), rating_count (demo_salon 1 2 1))
              = rating_summary (spec_visible_ratings (reviews ?db2) 1)"
    using C10_rating_summary_follows_review_writes
            [OF w2, where s = "demo_salon 1 2 1", THEN conjunct1] m2
    by (rule mp)
  have r3: "(rating_average (demo_salon 1 0 0), rating_count (demo_salon 1 0 0))
              = rating_summary (spec_visible_ratings (reviews ?db3) 1)"
    using C10_rating_summary_follows_review_writes
            [OF w3, where s = "demo_salon 1 0 0", THEN conjunct1] m3
    by (rule mp)
  have rows1: "reviews ?db1 = demo_reviews @ [?new]"
    and rows2: "reviews ?db2 = ?rows2" and rows3: "reviews ?db3 = ?rows3"
    by (simp_all add: demo_review_db_def)
  have faulty: "createReview not_in_future read_fault ?db (demo_review 20 4)
                  = (Inr ?new, snd (createReview not_in_future read_fault ?db (demo_review 20 4)))
                \<and> 1 = rv_salon_id ?new
            \<or> updateReview read_fault ?db (demo_review_update 21 1 2)
                 = (Inr (demo_review_row 1 21 1 2 True),
                    snd (createReview not_in_future read_fault ?db (demo_review 20 4)))
              \<and> 1 = rv_salon_id (demo_review_row 1 21 1 2 True)
            \<or> deleteReview read_fault ?db (demo_review_delete 21 1)
                 = (Inr (), snd (createReview not_in_future read_fault ?db (demo_review 20 4)))
              \<and> single (filter (\<lambda>v. rv_id v = rd_reviewId (demo_review_delete 21 1)
                                      \<and> rv_client_id v = rd_user (demo_review_delete 21 1))
                           (reviews ?db)) = Some (demo_review_row 1 21 1 5 True)
              \<and> 1 = rv_salon_id (demo_review_row 1 21 1 5 True)"
    by (simp add: createReview_def updateSalonRating_def fresh_id_def demo_defs Let_def)
  have fails: "reviews_read_fails read_fault \<or> salon_write_fails read_fault"
    by (simp add: read_fault_def)
  have r4: "salons (snd (createReview not_in_future read_fault ?db (demo_review 20 4))) = salons ?db"
    using C10_rating_summary_follows_review_writes
            [OF faulty, THEN conjunct2, THEN conjunct1] fails
    by (rule mp)
  have hyp: "?five \<noteq> [] \<and> list_all (\<lambda>r. 1 \<le> r \<and> r \<le> 5) ?five \<and> length ?five < 2 ^ 43"
    by simp
  have "spec_round2 (of_int (sum_list ?five) / of_nat (length ?five)) (fst (rating_summary ?five))"
    using C10_rating_summary_follows_review_writes
            [OF w1, where ratings = ?five,
             THEN conjunct2, THEN conjunct2, THEN conjunct2, THEN conjunct2, THEN conjunct1] hyp
    by (rule mp)
  then have r5: "spec_round2 (19 / 5) (fst (rating_summary ?five))"
    by simp
  show ?thesis
    by (intro conjI)
       (rule created updated deleted r1 [unfolded rows1] r2 [unfolded rows2] r3 [unfolded rows3]
             r4 r5)+
qed

end
